theory Spec2Isabelle
  imports Complex_Main
begin

section \<open>Numbers and two-dimensional vectors\<close>

text \<open>
  The simulator computes on Python floats and on numpy arrays of two floats. The program
  is embedded twice. The first embedding reads every float as a real number and every
  operation as the exact one: it carries the statements about the program in exact
  arithmetic and those whose values are exact in floating point as well. The second
  embedding, further down, keeps the floating-point operations apart from the real ones;
  it carries the statements that depend on rounding, underflow or overflow.
\<close>

type_synonym vec2 = "real \<times> real"

text \<open>numpy's element-wise \<open>a + b\<close>, \<open>a - b\<close>, \<open>k * a\<close>, \<open>a / k\<close>, and \<open>np.dot\<close>,
  \<open>np.linalg.norm\<close> on arrays of length two.\<close>

definition vadd :: "vec2 \<Rightarrow> vec2 \<Rightarrow> vec2" where
  "vadd a b = (fst a + fst b, snd a + snd b)"

definition vsub :: "vec2 \<Rightarrow> vec2 \<Rightarrow> vec2" where
  "vsub a b = (fst a - fst b, snd a - snd b)"

definition smul :: "real \<Rightarrow> vec2 \<Rightarrow> vec2" where
  "smul k a = (k * fst a, k * snd a)"

definition sdiv :: "vec2 \<Rightarrow> real \<Rightarrow> vec2" where
  "sdiv a k = (fst a / k, snd a / k)"

definition dot :: "vec2 \<Rightarrow> vec2 \<Rightarrow> real" where
  "dot a b = fst a * fst b + snd a * snd b"

definition linalg_norm :: "vec2 \<Rightarrow> real" where
  "linalg_norm a = sqrt (fst a * fst a + snd a * snd a)"

section \<open>Errors\<close>

text \<open>
  \<open>ValueError\<close> is what the specification calls InvalidParameter. \<open>ZeroDivisionError\<close>
  is raised by the float division \<open>duration / dt\<close> of \<open>run\<close> when \<open>dt\<close> is zero,
  \<open>OverflowError\<close> by \<open>int\<close> on an infinite float.
\<close>

datatype error = ValueError | ZeroDivisionError | OverflowError

section \<open>particle.py\<close>

record particle =
  position :: vec2
  velocity :: vec2
  mass :: real
  radius :: real

text \<open>
  \<open>Particle.__init__\<close>. An omitted keyword argument is \<open>None\<close> and takes the default of
  the signature. The mass is checked before the radius.
\<close>

definition Particle_init ::
  "vec2 option \<Rightarrow> vec2 option \<Rightarrow> real option \<Rightarrow> real option \<Rightarrow> error + particle" where
  "Particle_init position_arg velocity_arg mass_arg radius_arg =
     (let pos = (case position_arg of None \<Rightarrow> (0, 0) | Some v \<Rightarrow> v);
          vel = (case velocity_arg of None \<Rightarrow> (0, 0) | Some v \<Rightarrow> v);
          m = (case mass_arg of None \<Rightarrow> 1 | Some v \<Rightarrow> v);
          r = (case radius_arg of None \<Rightarrow> 1 | Some v \<Rightarrow> v)
      in if m \<le> 0 then Inl ValueError
         else if r \<le> 0 then Inl ValueError
         else Inr \<lparr>position = pos, velocity = vel, mass = m, radius = r\<rparr>)"

text \<open>\<open>Particle.update\<close>: the velocity is written first, the position reads the new one.\<close>

definition update :: "real \<Rightarrow> vec2 \<Rightarrow> particle \<Rightarrow> particle" where
  "update dt acceleration p =
     (let p1 = p\<lparr>velocity := vadd (velocity p) (smul dt acceleration)\<rparr>
      in p1\<lparr>position := vadd (position p1) (smul dt (velocity p1))\<rparr>)"

definition kinetic_energy :: "particle \<Rightarrow> real" where
  "kinetic_energy p =
     (let speed_squared = dot (velocity p) (velocity p)
      in 0.5 * mass p * speed_squared)"

definition momentum :: "particle \<Rightarrow> vec2" where
  "momentum p = smul (mass p) (velocity p)"

definition distance_to :: "particle \<Rightarrow> particle \<Rightarrow> real" where
  "distance_to p other =
     (let diff = vsub (position p) (position other) in linalg_norm diff)"

definition collides_with :: "particle \<Rightarrow> particle \<Rightarrow> bool" where
  "collides_with p other =
     (let distance = distance_to p other in distance < radius p + radius other)"

section \<open>simulation.py\<close>

text \<open>
  Particles are Python objects: a simulation holds references to them, and the same
  object may be held twice. A reference is a number and the store maps every reference
  to the object it names. The store is part of the state that the operations of the
  simulation pass along, since \<open>step\<close> mutates the particles it holds.
\<close>

type_synonym ref = nat

record world =
  heap :: "ref \<Rightarrow> particle"
  particles :: "ref list"
  gravity :: vec2
  bounds :: "(real \<times> real) option"
  time :: real

text \<open>\<open>Simulation.__init__\<close>, over a given store of particle objects.\<close>

definition Simulation_init ::
  "vec2 option \<Rightarrow> (real \<times> real) option \<Rightarrow> (ref \<Rightarrow> particle) \<Rightarrow> world" where
  "Simulation_init gravity_arg bounds_arg h =
     \<lparr>heap = h, particles = [],
      gravity = (case gravity_arg of None \<Rightarrow> (0, - 9.81) | Some g \<Rightarrow> g),
      bounds = bounds_arg, time = 0\<rparr>"

definition add_particle :: "ref \<Rightarrow> world \<Rightarrow> world" where
  "add_particle r s = s\<lparr>particles := particles s @ [r]\<rparr>"

text \<open>
  Python's \<open>list.remove(x)\<close>: the first entry equal to \<open>x\<close> is taken out, and a list
  without such an entry raises ValueError (\<open>None\<close> here). \<open>Particle\<close> defines no
  \<open>__eq__\<close>, so two entries are equal when they are the same object: the same reference.
\<close>

fun list_remove :: "ref \<Rightarrow> ref list \<Rightarrow> ref list option" where
  "list_remove x [] = None"
| "list_remove x (y # ys) =
     (if y = x then Some ys
      else (case list_remove x ys of None \<Rightarrow> None | Some zs \<Rightarrow> Some (y # zs)))"

definition remove_particle :: "ref \<Rightarrow> world \<Rightarrow> bool \<times> world" where
  "remove_particle r s =
     (case list_remove r (particles s) of
        Some ps \<Rightarrow> (True, s\<lparr>particles := ps\<rparr>)
      | None \<Rightarrow> (False, s))"

definition clear :: "world \<Rightarrow> world" where
  "clear s = s\<lparr>particles := [], time := 0\<rparr>"

text \<open>The first loop of \<open>step\<close>: every entry of the list is updated, in order.\<close>

fun update_all :: "real \<Rightarrow> vec2 \<Rightarrow> ref list \<Rightarrow> (ref \<Rightarrow> particle) \<Rightarrow> (ref \<Rightarrow> particle)" where
  "update_all dt g [] h = h"
| "update_all dt g (r # rs) h = update_all dt g rs (h(r := update dt g (h r)))"

text \<open>
  The body of the loop of \<open>_handle_boundary_collisions\<close> on one particle: \<open>pos\<close> and
  \<open>vel\<close> are copies, changed by four tests in a row and written back.
\<close>

definition reflect :: "real \<times> real \<Rightarrow> particle \<Rightarrow> particle" where
  "reflect wh p =
     (let width = fst wh; height = snd wh;
          pos0 = fst (position p); pos1 = snd (position p);
          vel0 = fst (velocity p); vel1 = snd (velocity p);
          radius = radius p;
          (pos0, vel0) = (if pos0 - radius < 0 then (radius, \<bar>vel0\<bar>) else (pos0, vel0));
          (pos0, vel0) = (if pos0 + radius > width then (width - radius, - \<bar>vel0\<bar>) else (pos0, vel0));
          (pos1, vel1) = (if pos1 - radius < 0 then (radius, \<bar>vel1\<bar>) else (pos1, vel1));
          (pos1, vel1) = (if pos1 + radius > height then (height - radius, - \<bar>vel1\<bar>) else (pos1, vel1))
      in p\<lparr>position := (pos0, pos1), velocity := (vel0, vel1)\<rparr>)"

fun reflect_all :: "real \<times> real \<Rightarrow> ref list \<Rightarrow> (ref \<Rightarrow> particle) \<Rightarrow> (ref \<Rightarrow> particle)" where
  "reflect_all wh [] h = h"
| "reflect_all wh (r # rs) h = reflect_all wh rs (h(r := reflect wh (h r)))"

definition handle_boundary_collisions :: "world \<Rightarrow> world" where
  "handle_boundary_collisions s =
     (case bounds s of
        None \<Rightarrow> s
      | Some wh \<Rightarrow> s\<lparr>heap := reflect_all wh (particles s) (heap s)\<rparr>)"

text \<open>
  \<open>_resolve_collision\<close> on the objects \<open>r1\<close> and \<open>r2\<close> of the store. The two velocities
  are written one after the other, then the two positions; the masses are positive by
  construction, so that neither division is by zero.
\<close>

definition resolve_collision :: "ref \<Rightarrow> ref \<Rightarrow> (ref \<Rightarrow> particle) \<Rightarrow> (ref \<Rightarrow> particle)" where
  "resolve_collision r1 r2 h =
     (let pos1 = position (h r1); pos2 = position (h r2);
          vel1 = velocity (h r1); vel2 = velocity (h r2);
          m1 = mass (h r1); m2 = mass (h r2);
          normal = vsub pos1 pos2;
          distance = linalg_norm normal
      in if distance = 0 then h
         else
           let normal = sdiv normal distance;
               rel_vel = vsub vel1 vel2;
               vel_along_normal = dot rel_vel normal
           in if vel_along_normal > 0 then h
              else
                let impulse = - 2 * vel_along_normal / (1 / m1 + 1 / m2);
                    vel1 = vadd vel1 (smul (impulse / m1) normal);
                    vel2 = vsub vel2 (smul (impulse / m2) normal);
                    h = h(r1 := (h r1)\<lparr>velocity := vel1\<rparr>);
                    h = h(r2 := (h r2)\<lparr>velocity := vel2\<rparr>);
                    overlap = (radius (h r1) + radius (h r2)) - distance
                in if overlap > 0
                   then
                     let separation = smul (overlap / 2 + 0.01) normal;
                         h = h(r1 := (h r1)\<lparr>position := vadd pos1 separation\<rparr>);
                         h = h(r2 := (h r2)\<lparr>position := vsub pos2 separation\<rparr>)
                     in h
                   else h)"

text \<open>The two loops of \<open>_handle_particle_collisions\<close>, over \<open>j\<close> and over \<open>i\<close>.\<close>

fun collide_inner :: "ref list \<Rightarrow> nat \<Rightarrow> nat list \<Rightarrow> (ref \<Rightarrow> particle) \<Rightarrow> (ref \<Rightarrow> particle)" where
  "collide_inner ps i [] h = h"
| "collide_inner ps i (j # js) h =
     (let p1 = ps ! i; p2 = ps ! j
      in collide_inner ps i js
           (if collides_with (h p1) (h p2) then resolve_collision p1 p2 h else h))"

fun collide_outer :: "ref list \<Rightarrow> nat \<Rightarrow> nat list \<Rightarrow> (ref \<Rightarrow> particle) \<Rightarrow> (ref \<Rightarrow> particle)" where
  "collide_outer ps n [] h = h"
| "collide_outer ps n (i # is) h = collide_outer ps n is (collide_inner ps i [i + 1 ..< n] h)"

definition handle_particle_collisions :: "world \<Rightarrow> world" where
  "handle_particle_collisions s =
     (let n = length (particles s)
      in s\<lparr>heap := collide_outer (particles s) n [0 ..< n] (heap s)\<rparr>)"

text \<open>
  \<open>step\<close> returns nothing or raises; the state after a raise is the state reached so far,
  so the result is paired with the state in both cases.
\<close>

definition step :: "real \<Rightarrow> world \<Rightarrow> (error + unit) \<times> world" where
  "step dt s =
     (if dt \<le> 0 then (Inl ValueError, s)
      else
        let s = s\<lparr>heap := update_all dt (gravity s) (particles s) (heap s)\<rparr>;
            s = (if bounds s \<noteq> None then handle_boundary_collisions s else s);
            s = handle_particle_collisions s
        in (Inr (), s\<lparr>time := time s + dt\<rparr>))"

definition total_kinetic_energy :: "world \<Rightarrow> real" where
  "total_kinetic_energy s = foldl (+) 0 (map (\<lambda>r. kinetic_energy (heap s r)) (particles s))"

definition total_momentum :: "world \<Rightarrow> vec2" where
  "total_momentum s =
     (if particles s = [] then (0, 0)
      else foldl vadd (0, 0) (map (\<lambda>r. momentum (heap s r)) (particles s)))"

section \<open>The quantities of a collision\<close>

text \<open>
  The local variables of \<open>_resolve_collision\<close> as functions of the two particles, to
  state what the resolution does: the unit normal from the second centre to the first,
  the relative velocity along it, the impulse and the overlap.
\<close>

definition collision_normal :: "particle \<Rightarrow> particle \<Rightarrow> vec2" where
  "collision_normal p1 p2 = sdiv (vsub (position p1) (position p2)) (distance_to p1 p2)"

definition vel_along_normal :: "particle \<Rightarrow> particle \<Rightarrow> real" where
  "vel_along_normal p1 p2 = dot (vsub (velocity p1) (velocity p2)) (collision_normal p1 p2)"

definition impulse :: "particle \<Rightarrow> particle \<Rightarrow> real" where
  "impulse p1 p2 = - 2 * vel_along_normal p1 p2 / (1 / mass p1 + 1 / mass p2)"

definition overlap :: "particle \<Rightarrow> particle \<Rightarrow> real" where
  "overlap p1 p2 = (radius p1 + radius p2) - distance_to p1 p2"

section \<open>Example states\<close>

text \<open>A particle at height 100, at rest, under the acceleration \<open>(0, -10)\<close>.\<close>

definition falling :: world where
  "falling = add_particle 0
     (Simulation_init (Some (0, - 10)) None
        (\<lambda>_. \<lparr>position = (0, 100), velocity = (0, 0), mass = 1, radius = 1\<rparr>))"

text \<open>
  A simulation that holds the object 1 twice; every object of the store has the same
  field values, the object 4 is not held.
\<close>

definition twins :: world where
  "twins = \<lparr>heap = (\<lambda>_. \<lparr>position = (0, 0), velocity = (0, 0), mass = 1, radius = 1\<rparr>),
            particles = [2, 1, 3, 1], gravity = (0, 0), bounds = None, time = 0\<rparr>"

text \<open>
  Two particles of masses 1 and 3 that move towards each other on the x axis: two units
  apart in \<open>head_on\<close>, a simulation without acceleration and bounds, and already
  overlapping in the store \<open>overlapping\<close>.
\<close>

definition head_on :: world where
  "head_on = \<lparr>heap = (\<lambda>r. if r = 0 then \<lparr>position = (0, 0), velocity = (1, 0), mass = 1, radius = 1\<rparr>
                             else \<lparr>position = (2, 0), velocity = (- 1, 0), mass = 3, radius = 1\<rparr>),
              particles = [0, 1], gravity = (0, 0), bounds = None, time = 0\<rparr>"

definition overlapping :: "ref \<Rightarrow> particle" where
  "overlapping = (\<lambda>r. if r = 0 then \<lparr>position = (0, 0), velocity = (1, 0), mass = 1, radius = 1\<rparr>
                       else \<lparr>position = (1, 0), velocity = (- 1, 0), mass = 3, radius = 1\<rparr>)"



section \<open>Floating-point values\<close>

text \<open>
  A double is a finite number, an infinity or NaN. The sign of a zero is not kept:
  comparisons, \<open>abs\<close> and negation do not see it, and the one divisor of the program that
  can be zero, \<open>1 / m1 + 1 / m2\<close> for two infinite masses, is \<open>+0.0\<close>.
\<close>

datatype double = Finite real | PInf | NInf | NaN

text \<open>
  Python's \<open><\<close>, \<open>>\<close>, \<open><=\<close> and \<open>==\<close> on floats, \<open>abs\<close> and unary minus. They are
  exact; every comparison with NaN is false.
\<close>

fun fl_lt :: "double \<Rightarrow> double \<Rightarrow> bool" where
  "fl_lt NaN y = False"
| "fl_lt x NaN = False"
| "fl_lt (Finite a) (Finite b) = (a < b)"
| "fl_lt (Finite a) PInf = True"
| "fl_lt (Finite a) NInf = False"
| "fl_lt PInf y = False"
| "fl_lt NInf NInf = False"
| "fl_lt NInf y = True"

definition fl_gt :: "double \<Rightarrow> double \<Rightarrow> bool" where
  "fl_gt x y = fl_lt y x"

fun fl_le :: "double \<Rightarrow> double \<Rightarrow> bool" where
  "fl_le NaN y = False"
| "fl_le x NaN = False"
| "fl_le x y = (\<not> fl_lt y x)"

fun fl_eq :: "double \<Rightarrow> double \<Rightarrow> bool" where
  "fl_eq NaN y = False"
| "fl_eq x NaN = False"
| "fl_eq x y = (x = y)"

fun fl_abs :: "double \<Rightarrow> double" where
  "fl_abs (Finite a) = Finite \<bar>a\<bar>"
| "fl_abs PInf = PInf"
| "fl_abs NInf = PInf"
| "fl_abs NaN = NaN"

fun fl_neg :: "double \<Rightarrow> double" where
  "fl_neg (Finite a) = Finite (- a)"
| "fl_neg PInf = NInf"
| "fl_neg NInf = PInf"
| "fl_neg NaN = NaN"

text \<open>
  Python's \<open>int(x)\<close> on a float: truncation towards zero, OverflowError on an infinity,
  ValueError on NaN.
\<close>

fun py_int :: "double \<Rightarrow> error + int" where
  "py_int (Finite x) = Inr (if 0 \<le> x then \<lfloor>x\<rfloor> else \<lceil>x\<rceil>)"
| "py_int PInf = Inl OverflowError"
| "py_int NInf = Inl OverflowError"
| "py_int NaN = Inl ValueError"

section \<open>Floating-point arithmetic\<close>

text \<open>
  The rounded operations are those of the machine and of numpy, not of this repository:
  they are a parameter of the embedding. \<open>fadd\<close>, \<open>fsub\<close>, \<open>fmul\<close> and \<open>fdiv\<close> are
  \<open>+\<close>, \<open>-\<close>, \<open>*\<close> and \<open>/\<close> on doubles (division by a divisor that is not zero; numpy's
  division also when it is), \<open>fdot\<close> is \<open>np.dot\<close> and \<open>fnorm\<close> is \<open>np.linalg.norm\<close> on
  arrays of two doubles, \<open>flit\<close> is the double that a decimal literal denotes. A statement
  proved for every such arithmetic holds for the IEEE arithmetic the program runs on.
\<close>

record arith =
  fadd :: "double \<Rightarrow> double \<Rightarrow> double"
  fsub :: "double \<Rightarrow> double \<Rightarrow> double"
  fmul :: "double \<Rightarrow> double \<Rightarrow> double"
  fdiv :: "double \<Rightarrow> double \<Rightarrow> double"
  fdot :: "double \<times> double \<Rightarrow> double \<times> double \<Rightarrow> double"
  fnorm :: "double \<times> double \<Rightarrow> double"
  flit :: "real \<Rightarrow> double"

type_synonym fl_vec2 = "double \<times> double"

definition fl_vadd :: "arith \<Rightarrow> fl_vec2 \<Rightarrow> fl_vec2 \<Rightarrow> fl_vec2" where
  "fl_vadd A a b = (fadd A (fst a) (fst b), fadd A (snd a) (snd b))"

definition fl_vsub :: "arith \<Rightarrow> fl_vec2 \<Rightarrow> fl_vec2 \<Rightarrow> fl_vec2" where
  "fl_vsub A a b = (fsub A (fst a) (fst b), fsub A (snd a) (snd b))"

definition fl_vmul :: "arith \<Rightarrow> fl_vec2 \<Rightarrow> double \<Rightarrow> fl_vec2" where
  "fl_vmul A a k = (fmul A (fst a) k, fmul A (snd a) k)"

definition fl_smul :: "arith \<Rightarrow> double \<Rightarrow> fl_vec2 \<Rightarrow> fl_vec2" where
  "fl_smul A k a = (fmul A k (fst a), fmul A k (snd a))"

definition fl_vdiv :: "arith \<Rightarrow> fl_vec2 \<Rightarrow> double \<Rightarrow> fl_vec2" where
  "fl_vdiv A a k = (fdiv A (fst a) k, fdiv A (snd a) k)"

section \<open>particle.py on doubles\<close>

text \<open>
  The same functions as above, line by line, with the float operations of the
  arithmetic \<open>A\<close> and the operands in the order of the source.
\<close>

record fl_particle =
  fl_position :: fl_vec2
  fl_velocity :: fl_vec2
  fl_mass :: double
  fl_radius :: double

definition fl_update :: "arith \<Rightarrow> double \<Rightarrow> fl_vec2 \<Rightarrow> fl_particle \<Rightarrow> fl_particle" where
  "fl_update A dt acceleration p =
     (let p1 = p\<lparr>fl_velocity := fl_vadd A (fl_velocity p) (fl_vmul A acceleration dt)\<rparr>
      in p1\<lparr>fl_position := fl_vadd A (fl_position p1) (fl_vmul A (fl_velocity p1) dt)\<rparr>)"

definition fl_distance_to :: "arith \<Rightarrow> fl_particle \<Rightarrow> fl_particle \<Rightarrow> double" where
  "fl_distance_to A p other =
     (let diff = fl_vsub A (fl_position p) (fl_position other) in fnorm A diff)"

definition fl_collides_with :: "arith \<Rightarrow> fl_particle \<Rightarrow> fl_particle \<Rightarrow> bool" where
  "fl_collides_with A p other =
     (let distance = fl_distance_to A p other
      in fl_lt distance (fadd A (fl_radius p) (fl_radius other)))"

section \<open>simulation.py on doubles\<close>

record fl_world =
  fl_heap :: "ref \<Rightarrow> fl_particle"
  fl_particles :: "ref list"
  fl_gravity :: fl_vec2
  fl_bounds :: "(double \<times> double) option"
  fl_time :: double

fun fl_update_all ::
  "arith \<Rightarrow> double \<Rightarrow> fl_vec2 \<Rightarrow> ref list \<Rightarrow> (ref \<Rightarrow> fl_particle) \<Rightarrow> (ref \<Rightarrow> fl_particle)" where
  "fl_update_all A dt g [] h = h"
| "fl_update_all A dt g (r # rs) h = fl_update_all A dt g rs (h(r := fl_update A dt g (h r)))"

definition fl_reflect :: "arith \<Rightarrow> double \<times> double \<Rightarrow> fl_particle \<Rightarrow> fl_particle" where
  "fl_reflect A wh p =
     (let width = fst wh; height = snd wh;
          pos0 = fst (fl_position p); pos1 = snd (fl_position p);
          vel0 = fst (fl_velocity p); vel1 = snd (fl_velocity p);
          radius = fl_radius p;
          (pos0, vel0) = (if fl_lt (fsub A pos0 radius) (Finite 0)
                          then (radius, fl_abs vel0) else (pos0, vel0));
          (pos0, vel0) = (if fl_gt (fadd A pos0 radius) width
                          then (fsub A width radius, fl_neg (fl_abs vel0)) else (pos0, vel0));
          (pos1, vel1) = (if fl_lt (fsub A pos1 radius) (Finite 0)
                          then (radius, fl_abs vel1) else (pos1, vel1));
          (pos1, vel1) = (if fl_gt (fadd A pos1 radius) height
                          then (fsub A height radius, fl_neg (fl_abs vel1)) else (pos1, vel1))
      in p\<lparr>fl_position := (pos0, pos1), fl_velocity := (vel0, vel1)\<rparr>)"

fun fl_reflect_all ::
  "arith \<Rightarrow> double \<times> double \<Rightarrow> ref list \<Rightarrow> (ref \<Rightarrow> fl_particle) \<Rightarrow> (ref \<Rightarrow> fl_particle)" where
  "fl_reflect_all A wh [] h = h"
| "fl_reflect_all A wh (r # rs) h = fl_reflect_all A wh rs (h(r := fl_reflect A wh (h r)))"

definition fl_handle_boundary_collisions :: "arith \<Rightarrow> fl_world \<Rightarrow> fl_world" where
  "fl_handle_boundary_collisions A s =
     (case fl_bounds s of
        None \<Rightarrow> s
      | Some wh \<Rightarrow> s\<lparr>fl_heap := fl_reflect_all A wh (fl_particles s) (fl_heap s)\<rparr>)"

text \<open>
  \<open>_resolve_collision\<close>. \<open>1 / m1\<close> and \<open>1 / m2\<close> divide Python floats and would raise
  on a zero mass; no particle has one, since \<open>__init__\<close> refuses \<open>mass <= 0\<close> and the
  mass has no setter. All other divisions are numpy's and never raise.
\<close>

definition fl_resolve_collision ::
  "arith \<Rightarrow> ref \<Rightarrow> ref \<Rightarrow> (ref \<Rightarrow> fl_particle) \<Rightarrow> (ref \<Rightarrow> fl_particle)" where
  "fl_resolve_collision A r1 r2 h =
     (let pos1 = fl_position (h r1); pos2 = fl_position (h r2);
          vel1 = fl_velocity (h r1); vel2 = fl_velocity (h r2);
          m1 = fl_mass (h r1); m2 = fl_mass (h r2);
          normal = fl_vsub A pos1 pos2;
          distance = fnorm A normal
      in if fl_eq distance (Finite 0) then h
         else
           let normal = fl_vdiv A normal distance;
               rel_vel = fl_vsub A vel1 vel2;
               vel_along_normal = fdot A rel_vel normal
           in if fl_gt vel_along_normal (Finite 0) then h
              else
                let impulse = fdiv A (fmul A (Finite (- 2)) vel_along_normal)
                                (fadd A (fdiv A (Finite 1) m1) (fdiv A (Finite 1) m2));
                    vel1 = fl_vadd A vel1 (fl_smul A (fdiv A impulse m1) normal);
                    vel2 = fl_vsub A vel2 (fl_smul A (fdiv A impulse m2) normal);
                    h = h(r1 := (h r1)\<lparr>fl_velocity := vel1\<rparr>);
                    h = h(r2 := (h r2)\<lparr>fl_velocity := vel2\<rparr>);
                    overlap = fsub A (fadd A (fl_radius (h r1)) (fl_radius (h r2))) distance
                in if fl_gt overlap (Finite 0)
                   then
                     let separation =
                           fl_vmul A normal (fadd A (fdiv A overlap (Finite 2)) (flit A (1 / 100)));
                         h = h(r1 := (h r1)\<lparr>fl_position := fl_vadd A pos1 separation\<rparr>);
                         h = h(r2 := (h r2)\<lparr>fl_position := fl_vsub A pos2 separation\<rparr>)
                     in h
                   else h)"

fun fl_collide_inner ::
  "arith \<Rightarrow> ref list \<Rightarrow> nat \<Rightarrow> nat list \<Rightarrow> (ref \<Rightarrow> fl_particle) \<Rightarrow> (ref \<Rightarrow> fl_particle)" where
  "fl_collide_inner A ps i [] h = h"
| "fl_collide_inner A ps i (j # js) h =
     (let p1 = ps ! i; p2 = ps ! j
      in fl_collide_inner A ps i js
           (if fl_collides_with A (h p1) (h p2) then fl_resolve_collision A p1 p2 h else h))"

fun fl_collide_outer ::
  "arith \<Rightarrow> ref list \<Rightarrow> nat \<Rightarrow> nat list \<Rightarrow> (ref \<Rightarrow> fl_particle) \<Rightarrow> (ref \<Rightarrow> fl_particle)" where
  "fl_collide_outer A ps n [] h = h"
| "fl_collide_outer A ps n (i # is) h =
     fl_collide_outer A ps n is (fl_collide_inner A ps i [i + 1 ..< n] h)"

definition fl_handle_particle_collisions :: "arith \<Rightarrow> fl_world \<Rightarrow> fl_world" where
  "fl_handle_particle_collisions A s =
     (let n = length (fl_particles s)
      in s\<lparr>fl_heap := fl_collide_outer A (fl_particles s) n [0 ..< n] (fl_heap s)\<rparr>)"

definition fl_step :: "arith \<Rightarrow> double \<Rightarrow> fl_world \<Rightarrow> (error + unit) \<times> fl_world" where
  "fl_step A dt s =
     (if fl_le dt (Finite 0) then (Inl ValueError, s)
      else
        let s = s\<lparr>fl_heap := fl_update_all A dt (fl_gravity s) (fl_particles s) (fl_heap s)\<rparr>;
            s = (if fl_bounds s \<noteq> None then fl_handle_boundary_collisions A s else s);
            s = fl_handle_particle_collisions A s
        in (Inr (), s\<lparr>fl_time := fadd A (fl_time s) dt\<rparr>))"

text \<open>
  \<open>run\<close>: the float division \<open>duration / dt\<close> raises on \<open>dt == 0\<close>, \<open>int\<close> raises on a
  quotient that is infinite or NaN, \<open>range\<close> of a negative number is empty, and a step
  that raises ends the run.
\<close>

fun fl_record_positions ::
  "(ref \<Rightarrow> fl_particle) \<Rightarrow> (nat \<times> ref) list \<Rightarrow> fl_vec2 list list \<Rightarrow> fl_vec2 list list" where
  "fl_record_positions h [] histories = histories"
| "fl_record_positions h ((i, r) # rest) histories =
     fl_record_positions h rest (histories[i := histories ! i @ [fl_position (h r)]])"

fun fl_run_loop ::
  "arith \<Rightarrow> nat \<Rightarrow> double \<Rightarrow> fl_world \<Rightarrow> fl_vec2 list list \<Rightarrow> (error + fl_vec2 list list) \<times> fl_world" where
  "fl_run_loop A 0 dt s histories = (Inr histories, s)"
| "fl_run_loop A (Suc k) dt s histories =
     (let histories = fl_record_positions (fl_heap s) (enumerate 0 (fl_particles s)) histories
      in case fl_step A dt s of
           (Inl e, s') \<Rightarrow> (Inl e, s')
         | (Inr u, s') \<Rightarrow> fl_run_loop A k dt s' histories)"

definition fl_run ::
  "arith \<Rightarrow> double \<Rightarrow> double \<Rightarrow> fl_world \<Rightarrow> (error + fl_vec2 list list) \<times> fl_world" where
  "fl_run A duration dt s =
     (let histories = map (\<lambda>_. []) (fl_particles s)
      in if fl_eq dt (Finite 0) then (Inl ZeroDivisionError, s)
         else
           case py_int (fdiv A duration dt) of
             Inl e \<Rightarrow> (Inl e, s)
           | Inr num_steps \<Rightarrow> fl_run_loop A (nat num_steps) dt s histories)"

section \<open>The quantities of a collision, on doubles\<close>

text \<open>
  The local variables of \<open>_resolve_collision\<close> as the program computes them.
\<close>

definition fl_collision_normal :: "arith \<Rightarrow> fl_particle \<Rightarrow> fl_particle \<Rightarrow> fl_vec2" where
  "fl_collision_normal A p1 p2 =
     fl_vdiv A (fl_vsub A (fl_position p1) (fl_position p2)) (fl_distance_to A p1 p2)"

definition fl_vel_along_normal :: "arith \<Rightarrow> fl_particle \<Rightarrow> fl_particle \<Rightarrow> double" where
  "fl_vel_along_normal A p1 p2 =
     fdot A (fl_vsub A (fl_velocity p1) (fl_velocity p2)) (fl_collision_normal A p1 p2)"

definition fl_inverse_mass_sum :: "arith \<Rightarrow> fl_particle \<Rightarrow> fl_particle \<Rightarrow> double" where
  "fl_inverse_mass_sum A p1 p2 =
     fadd A (fdiv A (Finite 1) (fl_mass p1)) (fdiv A (Finite 1) (fl_mass p2))"

definition fl_impulse :: "arith \<Rightarrow> fl_particle \<Rightarrow> fl_particle \<Rightarrow> double" where
  "fl_impulse A p1 p2 =
     fdiv A (fmul A (Finite (- 2)) (fl_vel_along_normal A p1 p2)) (fl_inverse_mass_sum A p1 p2)"

definition fl_overlap :: "arith \<Rightarrow> fl_particle \<Rightarrow> fl_particle \<Rightarrow> double" where
  "fl_overlap A p1 p2 =
     fsub A (fadd A (fl_radius p1) (fl_radius p2)) (fl_distance_to A p1 p2)"

text \<open>
  What IEEE arithmetic does with an exact zero: the product of zero and a finite number
  is zero, and zero divided by anything but zero and NaN is zero.
\<close>

definition zero_exact :: "arith \<Rightarrow> bool" where
  "zero_exact A \<longleftrightarrow>
     (\<forall>a. fmul A (Finite 0) (Finite a) = Finite 0 \<and> fmul A (Finite a) (Finite 0) = Finite 0) \<and>
     (\<forall>y. y \<noteq> Finite 0 \<and> y \<noteq> NaN \<longrightarrow> fdiv A (Finite 0) y = Finite 0)"

section \<open>IEEE binary64\<close>

text \<open>
  Rounding of a real number to the nearest double, ties to the even significand: below
  \<open>2 ^ (-1022)\<close> the doubles are the multiples of \<open>2 ^ (-1074)\<close>, elsewhere they have 53
  significant bits, and a result of \<open>2 ^ 1024\<close> or more is an infinity.
\<close>

definition round_even :: "real \<Rightarrow> int" where
  "round_even t =
     (let n = \<lfloor>t\<rfloor>; f = t - of_int n
      in if f < 1 / 2 then n else if 1 / 2 < f then n + 1 else if even n then n else n + 1)"

definition pow2 :: "int \<Rightarrow> real" where
  "pow2 k = (if 0 \<le> k then 2 ^ nat k else 1 / 2 ^ nat (- k))"

definition binary64 :: "real \<Rightarrow> double" where
  "binary64 x =
     (if x = 0 then Finite 0
      else
        let e = max \<lfloor>log 2 \<bar>x\<bar>\<rfloor> (- 1022);
            q = pow2 (e - 52);
            y = of_int (round_even (x / q)) * q
        in if 2 ^ 1024 \<le> \<bar>y\<bar> then (if 0 < x then PInf else NInf) else Finite y)"

text \<open>
  The arithmetic that rounds every exact result with \<open>rnd\<close> and treats infinities and
  NaN as IEEE 754 does; a zero divisor counts as \<open>+0.0\<close>. In \<open>np.dot\<close> each product and the
  sum are rounded, \<open>np.linalg.norm\<close> is the rounded square root of that. \<open>binary64_arith\<close>
  is this arithmetic on doubles; the closed statements below are evaluated in it. In each
  of them one of the two products of every dot product and norm is exactly zero, so that
  a library that fuses a product into the sum computes the same values.
\<close>

fun ieee_add :: "(real \<Rightarrow> double) \<Rightarrow> double \<Rightarrow> double \<Rightarrow> double" where
  "ieee_add rnd NaN y = NaN"
| "ieee_add rnd x NaN = NaN"
| "ieee_add rnd (Finite a) (Finite b) = rnd (a + b)"
| "ieee_add rnd PInf NInf = NaN"
| "ieee_add rnd NInf PInf = NaN"
| "ieee_add rnd PInf y = PInf"
| "ieee_add rnd x PInf = PInf"
| "ieee_add rnd NInf y = NInf"
| "ieee_add rnd x NInf = NInf"

fun ieee_mul :: "(real \<Rightarrow> double) \<Rightarrow> double \<Rightarrow> double \<Rightarrow> double" where
  "ieee_mul rnd NaN y = NaN"
| "ieee_mul rnd x NaN = NaN"
| "ieee_mul rnd (Finite a) (Finite b) = rnd (a * b)"
| "ieee_mul rnd x y =
     (if x = Finite 0 \<or> y = Finite 0 then NaN
      else if fl_lt x (Finite 0) = fl_lt y (Finite 0) then PInf else NInf)"

fun ieee_div :: "(real \<Rightarrow> double) \<Rightarrow> double \<Rightarrow> double \<Rightarrow> double" where
  "ieee_div rnd NaN y = NaN"
| "ieee_div rnd x NaN = NaN"
| "ieee_div rnd (Finite a) (Finite b) =
     (if b = 0 then (if a = 0 then NaN else if 0 < a then PInf else NInf) else rnd (a / b))"
| "ieee_div rnd (Finite a) y = Finite 0"
| "ieee_div rnd x (Finite b) = (if fl_lt x (Finite 0) = (b < 0) then PInf else NInf)"
| "ieee_div rnd x y = NaN"

fun ieee_sqrt :: "(real \<Rightarrow> double) \<Rightarrow> double \<Rightarrow> double" where
  "ieee_sqrt rnd (Finite a) = (if a < 0 then NaN else rnd (sqrt a))"
| "ieee_sqrt rnd PInf = PInf"
| "ieee_sqrt rnd NInf = NaN"
| "ieee_sqrt rnd NaN = NaN"

definition ieee :: "(real \<Rightarrow> double) \<Rightarrow> arith" where
  "ieee rnd =
     \<lparr>fadd = ieee_add rnd,
      fsub = (\<lambda>x y. ieee_add rnd x (fl_neg y)),
      fmul = ieee_mul rnd,
      fdiv = ieee_div rnd,
      fdot = (\<lambda>a b. ieee_add rnd (ieee_mul rnd (fst a) (fst b)) (ieee_mul rnd (snd a) (snd b))),
      fnorm = (\<lambda>a. ieee_sqrt rnd
                 (ieee_add rnd (ieee_mul rnd (fst a) (fst a)) (ieee_mul rnd (snd a) (snd a)))),
      flit = rnd\<rparr>"

definition binary64_arith :: arith where
  "binary64_arith = ieee binary64"

section \<open>Example states on doubles\<close>

text \<open>A particle at height 100, at rest, under the acceleration \<open>(0, -10)\<close>.\<close>

definition fl_falling :: fl_world where
  "fl_falling =
     \<lparr>fl_heap = (\<lambda>_. \<lparr>fl_position = (Finite 0, Finite 100), fl_velocity = (Finite 0, Finite 0),
                      fl_mass = Finite 1, fl_radius = Finite 1\<rparr>),
      fl_particles = [0], fl_gravity = (Finite 0, Finite (- 10)), fl_bounds = None,
      fl_time = Finite 0\<rparr>"

text \<open>
  A box of 10 by 10 that holds a particle of radius 2 beyond its left and its top wall and
  a particle of radius 1 inside it; and a particle of diameter 2, to be put in a box of
  width 1.
\<close>

definition fl_boxed :: fl_world where
  "fl_boxed =
     \<lparr>fl_heap = (\<lambda>r. if r = 0
                     then \<lparr>fl_position = (Finite (- 1), Finite 12), fl_velocity = (Finite (- 3), Finite 2),
                           fl_mass = Finite 1, fl_radius = Finite 2\<rparr>
                     else \<lparr>fl_position = (Finite 5, Finite 5), fl_velocity = (Finite 1, Finite 1),
                           fl_mass = Finite 1, fl_radius = Finite 1\<rparr>),
      fl_particles = [0, 1], fl_gravity = (Finite 0, Finite 0),
      fl_bounds = Some (Finite 10, Finite 10), fl_time = Finite 0\<rparr>"

definition fl_squeezed :: fl_particle where
  "fl_squeezed = \<lparr>fl_position = (Finite (- 1), Finite 1), fl_velocity = (Finite 1, Finite 0),
                  fl_mass = Finite 1, fl_radius = Finite 1\<rparr>"

text \<open>Two particles of radius 1 with centres 2 apart.\<close>

definition fl_touching :: "ref \<Rightarrow> fl_particle" where
  "fl_touching = (\<lambda>r. if r = 0
     then \<lparr>fl_position = (Finite 0, Finite 0), fl_velocity = (Finite 0, Finite 0),
           fl_mass = Finite 1, fl_radius = Finite 1\<rparr>
     else \<lparr>fl_position = (Finite 2, Finite 0), fl_velocity = (Finite 0, Finite 0),
           fl_mass = Finite 1, fl_radius = Finite 1\<rparr>)"

text \<open>
  Two particles with the radii \<open>0.1\<close> and \<open>0.7\<close> (the doubles these literals denote) and
  centres \<open>0.7999999999999999\<close> apart, the double just below \<open>0.8\<close>.
\<close>

definition fl_grazing :: "ref \<Rightarrow> fl_particle" where
  "fl_grazing = (\<lambda>r. if r = 0
     then \<lparr>fl_position = (Finite 0, Finite 0), fl_velocity = (Finite 0, Finite 0),
           fl_mass = Finite 1, fl_radius = Finite (3602879701896397 / 2 ^ 55)\<rparr>
     else \<lparr>fl_position = (Finite (7205759403792793 / 2 ^ 53), Finite 0),
           fl_velocity = (Finite 0, Finite 0),
           fl_mass = Finite 1, fl_radius = Finite (3152519739159347 / 2 ^ 52)\<rparr>)"

text \<open>Two overlapping particles that pass each other at right angles to their normal.\<close>

definition fl_sliding :: "ref \<Rightarrow> fl_particle" where
  "fl_sliding = (\<lambda>r. if r = 0
     then \<lparr>fl_position = (Finite 0, Finite 0), fl_velocity = (Finite 0, Finite 1),
           fl_mass = Finite 1, fl_radius = Finite 1\<rparr>
     else \<lparr>fl_position = (Finite 1, Finite 0), fl_velocity = (Finite 0, Finite (- 1)),
           fl_mass = Finite 1, fl_radius = Finite 1\<rparr>)"

text \<open>Two particles at rest with centres \<open>2 ^ (-600)\<close> apart.\<close>

definition fl_underflow :: "ref \<Rightarrow> fl_particle" where
  "fl_underflow = (\<lambda>r. if r = 0
     then \<lparr>fl_position = (Finite 0, Finite 0), fl_velocity = (Finite 0, Finite 0),
           fl_mass = Finite 1, fl_radius = Finite 1\<rparr>
     else \<lparr>fl_position = (Finite (1 / 2 ^ 600), Finite 0), fl_velocity = (Finite 0, Finite 0),
           fl_mass = Finite 1, fl_radius = Finite 1\<rparr>)"

section \<open>Vectors\<close>

lemma vec_simps [simp]:
  "vadd (a, b) (c, d) = (a + c, b + d)"
  "vsub (a, b) (c, d) = (a - c, b - d)"
  "smul k (a, b) = (k * a, k * b)"
  "sdiv (a, b) k = (a / k, b / k)"
  "dot (a, b) (c, d) = a * c + b * d"
  by (simp_all add: vadd_def vsub_def smul_def sdiv_def dot_def)

section \<open>Construction of a particle\<close>

text \<open>
  C8. A mass or a radius that is not positive makes the construction of a particle fail
  with ValueError (InvalidParameter), whatever the other arguments are. With a positive
  mass and a positive radius the construction succeeds and the particle has the given
  position, velocity, mass and radius; an omitted argument takes its default: position
  \<open>(0, 0)\<close>, velocity \<open>(0, 0)\<close>, mass 1, radius 1.
\<close>

theorem particle_init_validation:
  "(m \<le> 0 \<longrightarrow> Particle_init po ve (Some m) ra = Inl ValueError) \<and>
   (r \<le> 0 \<longrightarrow> Particle_init po ve ma (Some r) = Inl ValueError) \<and>
   (0 < m \<and> 0 < r \<longrightarrow>
      Particle_init (Some p) (Some v) (Some m) (Some r) =
        Inr \<lparr>position = p, velocity = v, mass = m, radius = r\<rparr>) \<and>
   (0 < (case ma of None \<Rightarrow> 1 | Some x \<Rightarrow> x) \<and> 0 < (case ra of None \<Rightarrow> 1 | Some x \<Rightarrow> x) \<longrightarrow>
      Particle_init po ve ma ra =
        Inr \<lparr>position = (case po of None \<Rightarrow> (0, 0) | Some x \<Rightarrow> x),
             velocity = (case ve of None \<Rightarrow> (0, 0) | Some x \<Rightarrow> x),
             mass = (case ma of None \<Rightarrow> 1 | Some x \<Rightarrow> x),
             radius = (case ra of None \<Rightarrow> 1 | Some x \<Rightarrow> x)\<rparr>) \<and>
   Particle_init None None None None =
     Inr \<lparr>position = (0, 0), velocity = (0, 0), mass = 1, radius = 1\<rparr>"
  by (auto simp add: Particle_init_def Let_def split: option.splits)

theorem particle_init_validation_witness:
  "Particle_init None None (Some (- 1)) None = Inl ValueError \<and>
   Particle_init None None (Some 0) None = Inl ValueError \<and>
   Particle_init None None None (Some 0) = Inl ValueError \<and>
   Particle_init (Some (1, 2)) (Some (3, 4)) (Some 5) (Some 6) =
     Inr \<lparr>position = (1, 2), velocity = (3, 4), mass = 5, radius = 6\<rparr> \<and>
   Particle_init (Some (1, 2)) None None (Some 6) =
     Inr \<lparr>position = (1, 2), velocity = (0, 0), mass = 1, radius = 6\<rparr>"
  using particle_init_validation [of "- 1" None None None 0 None "(1, 2)" "(3, 4)"]
        particle_init_validation [of 0 None None None 0 None "(1, 2)" "(3, 4)"]
        particle_init_validation [of 5 "Some (1, 2)" None "Some 6" 6 None "(1, 2)" "(3, 4)"]
  by simp

section \<open>Integration\<close>

lemma update_fields [simp]:
  "velocity (update dt acc p) = vadd (velocity p) (smul dt acc)"
  "position (update dt acc p) = vadd (position p) (smul dt (vadd (velocity p) (smul dt acc)))"
  "mass (update dt acc p) = mass p"
  "radius (update dt acc p) = radius p"
  by (simp_all add: update_def Let_def)

text \<open>
  C1. \<open>update\<close> is a semi-implicit Euler step: the new velocity is the old one plus
  \<open>acceleration * dt\<close>, and the new position is the old one plus \<open>dt\<close> times the new
  velocity; mass and radius are kept. Hence in a simulation with acceleration
  \<open>(0, -10)\<close>, no bounds and one particle at \<open>(0, 100)\<close> at rest, \<open>step 1\<close> succeeds and
  leaves the particle with velocity \<open>(0, -10)\<close> at position \<open>(0, 90)\<close>.
\<close>

theorem semi_implicit_euler:
  "(velocity (update dt acc p) = vadd (velocity p) (smul dt acc) \<and>
    position (update dt acc p) = vadd (position p) (smul dt (velocity (update dt acc p))) \<and>
    mass (update dt acc p) = mass p \<and> radius (update dt acc p) = radius p) \<and>
   (gravity s = (0, - 10) \<and> bounds s = None \<and> particles s = [r] \<and>
    position (heap s r) = (0, 100) \<and> velocity (heap s r) = (0, 0) \<longrightarrow>
      fst (step 1 s) = Inr () \<and>
      velocity (heap (snd (step 1 s)) r) = (0, - 10) \<and>
      position (heap (snd (step 1 s)) r) = (0, 90) \<and>
      time (snd (step 1 s)) = time s + 1)"
  by (simp add: step_def Let_def handle_particle_collisions_def)

theorem semi_implicit_euler_witness:
  "gravity falling = (0, - 10) \<and> bounds falling = None \<and> particles falling = [0] \<and>
   position (heap falling 0) = (0, 100) \<and> velocity (heap falling 0) = (0, 0) \<and>
   fst (step 1 falling) = Inr () \<and>
   velocity (heap (snd (step 1 falling)) 0) = (0, - 10) \<and>
   position (heap (snd (step 1 falling)) 0) = (0, 90)"
proof -
  have h: "gravity falling = (0, - 10) \<and> bounds falling = None \<and> particles falling = [0] \<and>
    position (heap falling 0) = (0, 100) \<and> velocity (heap falling 0) = (0, 0)"
    by (simp add: falling_def add_particle_def Simulation_init_def)
  show ?thesis
    using h semi_implicit_euler [of 1 "(0, - 10)" "heap falling 0" falling 0] by simp
qed

section \<open>Validation of the time step\<close>

text \<open>
  C4. For every \<open>dt \<le> 0\<close>, \<open>step dt\<close> fails with ValueError (InvalidParameter) and the
  state it leaves is the state it was called in: the store of particles, the list, the
  acceleration, the bounds and the clock are all unchanged.
\<close>

theorem step_invalid_dt: "dt \<le> 0 \<Longrightarrow> step dt s = (Inl ValueError, s)"
  by (simp add: step_def)

theorem step_invalid_dt_witness:
  "step 0 falling = (Inl ValueError, falling) \<and> step (- 1) falling = (Inl ValueError, falling)"
  using step_invalid_dt [of 0 falling] step_invalid_dt [of "- 1" falling] by simp

section \<open>Removal of a particle\<close>

lemma list_remove_None: "list_remove x ps = None \<longleftrightarrow> x \<notin> set ps"
  by (induction ps) (auto split: option.splits)

lemma list_remove_Some:
  "x \<in> set ps \<Longrightarrow> \<exists>xs ys. ps = xs @ x # ys \<and> x \<notin> set xs \<and> list_remove x ps = Some (xs @ ys)"
proof (induction ps)
  case Nil
  then show ?case by simp
next
  case (Cons y ps)
  show ?case
  proof (cases "y = x")
    case True
    then have "y # ps = [] @ x # ps \<and> x \<notin> set [] \<and> list_remove x (y # ps) = Some ([] @ ps)"
      by simp
    then show ?thesis by blast
  next
    case False
    with Cons.prems have "x \<in> set ps" by simp
    from Cons.IH [OF this] obtain xs ys where
      "ps = xs @ x # ys" "x \<notin> set xs" "list_remove x ps = Some (xs @ ys)" by blast
    with False have "y # ps = (y # xs) @ x # ys \<and> x \<notin> set (y # xs) \<and>
        list_remove x (y # ps) = Some ((y # xs) @ ys)"
      by simp
    then show ?thesis by blast
  qed
qed

text \<open>
  C9. When the object \<open>r\<close> is held, \<open>remove_particle r\<close> returns True and takes out its
  first entry: the list was \<open>xs @ r # ys\<close> with \<open>r\<close> not in \<open>xs\<close>, and it becomes
  \<open>xs @ ys\<close>, so the other entries keep their order. When \<open>r\<close> is not held the result is
  False and the state is unchanged, also when a held object has the same field values as
  \<open>r\<close>: entries match by reference, not by value.
\<close>

theorem remove_particle_first_match:
  "(r \<in> set (particles s) \<longrightarrow>
      (\<exists>xs ys. particles s = xs @ r # ys \<and> r \<notin> set xs \<and>
         remove_particle r s = (True, s\<lparr>particles := xs @ ys\<rparr>))) \<and>
   (r \<notin> set (particles s) \<longrightarrow> remove_particle r s = (False, s))"
proof (intro conjI impI)
  assume "r \<in> set (particles s)"
  from list_remove_Some [OF this] obtain xs ys where
    "particles s = xs @ r # ys" "r \<notin> set xs" "list_remove r (particles s) = Some (xs @ ys)"
    by blast
  then show "\<exists>xs ys. particles s = xs @ r # ys \<and> r \<notin> set xs \<and>
         remove_particle r s = (True, s\<lparr>particles := xs @ ys\<rparr>)"
    by (auto simp add: remove_particle_def)
next
  assume "r \<notin> set (particles s)"
  then have "list_remove r (particles s) = None" by (simp add: list_remove_None)
  then show "remove_particle r s = (False, s)" by (simp add: remove_particle_def)
qed

theorem remove_particle_first_match_witness:
  "remove_particle 1 twins = (True, twins\<lparr>particles := [2, 3, 1]\<rparr>) \<and>
   heap twins 4 = heap twins 1 \<and> remove_particle 4 twins = (False, twins)"
proof -
  have ps: "particles twins = [2, 1, 3, 1]" by (simp add: twins_def)
  have "\<exists>xs ys. [2, 1, 3, 1] = xs @ 1 # ys \<and> (1::nat) \<notin> set xs \<and>
         remove_particle 1 twins = (True, twins\<lparr>particles := xs @ ys\<rparr>)"
    using remove_particle_first_match [of 1 twins] by (simp add: ps)
  then obtain xs ys where a: "[2, 1, 3, 1] = xs @ (1::nat) # ys" and b: "(1::nat) \<notin> set xs"
    and c: "remove_particle 1 twins = (True, twins\<lparr>particles := xs @ ys\<rparr>)" by blast
  from a b have "xs = [2] \<and> ys = [3, 1]"
    by (auto simp add: append_eq_Cons_conv Cons_eq_append_conv)
  with c have "remove_particle 1 twins = (True, twins\<lparr>particles := [2, 3, 1]\<rparr>)" by simp
  moreover have "remove_particle 4 twins = (False, twins)"
    using remove_particle_first_match [of 4 twins] by (simp add: ps)
  moreover have "heap twins 4 = heap twins 1" by (simp add: twins_def)
  ultimately show ?thesis by simp
qed

section \<open>Collision resolution\<close>

lemma impulse_times:
  fixes m1 m2 vn :: real
  assumes "0 < m1" "0 < m2"
  shows "(- 2 * vn / (1 / m1 + 1 / m2)) * (1 / m1 + 1 / m2) = - 2 * vn"
proof -
  have "0 < 1 / m1 + 1 / m2" using assms by (simp add: add_pos_pos)
  then show ?thesis by simp
qed

lemma energy_expand:
  fixes m1 m2 j ax ay bx by' nx ny :: real
  assumes "0 < m1" "0 < m2"
  shows "m1 * ((ax + j / m1 * nx) * (ax + j / m1 * nx) + (ay + j / m1 * ny) * (ay + j / m1 * ny)) +
         m2 * ((bx - j / m2 * nx) * (bx - j / m2 * nx) + (by' - j / m2 * ny) * (by' - j / m2 * ny)) =
         m1 * (ax * ax + ay * ay) + m2 * (bx * bx + by' * by') +
         (2 * j * ((ax - bx) * nx + (ay - by') * ny) + j * (j * (1 / m1 + 1 / m2)) * (nx * nx + ny * ny))"
  using assms by (simp add: field_simps)

lemma energy_algebra:
  fixes m1 m2 j ax ay bx by' nx ny :: real
  assumes m: "0 < m1" "0 < m2" and unit: "nx * nx + ny * ny = 1"
    and js: "j * (1 / m1 + 1 / m2) = - 2 * ((ax - bx) * nx + (ay - by') * ny)"
  shows "m1 * ((ax + j / m1 * nx) * (ax + j / m1 * nx) + (ay + j / m1 * ny) * (ay + j / m1 * ny)) +
         m2 * ((bx - j / m2 * nx) * (bx - j / m2 * nx) + (by' - j / m2 * ny) * (by' - j / m2 * ny)) =
         m1 * (ax * ax + ay * ay) + m2 * (bx * bx + by' * by')"
proof -
  define V where "V = (ax - bx) * nx + (ay - by') * ny"
  have "j * (1 / m1 + 1 / m2) = - 2 * V" using js by (simp only: V_def)
  then have "2 * j * V + j * (j * (1 / m1 + 1 / m2)) * (nx * nx + ny * ny) =
             2 * j * V + j * (- 2 * V) * 1"
    by (simp only: unit)
  also have "\<dots> = 0" by simp
  finally have "2 * j * ((ax - bx) * nx + (ay - by') * ny) +
        j * (j * (1 / m1 + 1 / m2)) * (nx * nx + ny * ny) = 0"
    by (simp only: V_def)
  then show ?thesis
    using energy_expand [OF m, of ax j nx ay ny bx by'] by simp
qed

lemma unit_quotient:
  fixes x y t :: real
  shows "x / t * (x / t) + y / t * (y / t) = (x * x + y * y) / (t * t)"
  by (simp add: add_divide_distrib)

lemma momentum_algebra:
  fixes m1 m2 j a b n :: real
  assumes "0 < m1" "0 < m2"
  shows "m1 * (a + j / m1 * n) + m2 * (b - j / m2 * n) = m1 * a + m2 * b"
  using assms by (simp add: field_simps)

lemma distance_to_zero_iff: "distance_to p q = 0 \<longleftrightarrow> position p = position q"
proof -
  obtain a b where p: "position p = (a, b)" by (cases "position p")
  obtain c d where q: "position q = (c, d)" by (cases "position q")
  have "sqrt ((a - c) * (a - c) + (b - d) * (b - d)) = 0 \<longleftrightarrow> a = c \<and> b = d"
    by (simp add: add_nonneg_eq_0_iff)
  then show ?thesis by (simp add: distance_to_def linalg_norm_def p q)
qed

lemma resolve_collision_same: "position (h r1) = position (h r2) \<Longrightarrow> resolve_collision r1 r2 h = h"
  using distance_to_zero_iff [of "h r1" "h r2"]
  by (simp add: resolve_collision_def distance_to_def Let_def)

lemma resolve_collision_separating:
  "0 < vel_along_normal (h r1) (h r2) \<Longrightarrow> resolve_collision r1 r2 h = h"
  by (simp add: resolve_collision_def vel_along_normal_def collision_normal_def distance_to_def Let_def)

lemma resolve_collision_impulse:
  assumes "position (h r1) \<noteq> position (h r2)" and "vel_along_normal (h r1) (h r2) \<le> 0"
  shows "resolve_collision r1 r2 h =
    (let p1 = h r1; p2 = h r2; n = collision_normal p1 p2; j = impulse p1 p2;
         push = (if 0 < overlap p1 p2 then smul (overlap p1 p2 / 2 + 0.01) n else (0, 0))
     in h(r1 := p1\<lparr>velocity := vadd (velocity p1) (smul (j / mass p1) n),
                    position := vadd (position p1) push\<rparr>,
          r2 := p2\<lparr>velocity := vsub (velocity p2) (smul (j / mass p2) n),
                    position := vsub (position p2) push\<rparr>))"
proof -
  from assms(1) have ne: "r1 \<noteq> r2" by auto
  from assms(1) have d: "distance_to (h r1) (h r2) \<noteq> 0" by (simp add: distance_to_zero_iff)
  have z: "vadd (position (h r1)) (0, 0) = position (h r1)" "vsub (position (h r2)) (0, 0) = position (h r2)"
    by (simp_all add: vadd_def vsub_def)
  show ?thesis
    using ne d assms(2)
    by (auto simp add: resolve_collision_def vel_along_normal_def collision_normal_def
        impulse_def overlap_def distance_to_def Let_def fun_upd_twist z not_less)
qed

lemma collision_normal_unit:
  assumes "position p \<noteq> position q"
  shows "fst (collision_normal p q) * fst (collision_normal p q) +
         snd (collision_normal p q) * snd (collision_normal p q) = 1"
proof -
  obtain a b where p: "position p = (a, b)" by (cases "position p")
  obtain c d where q: "position q = (c, d)" by (cases "position q")
  define S where "S = (a - c) * (a - c) + (b - d) * (b - d)"
  have "S \<noteq> 0" using assms by (auto simp add: S_def p q add_nonneg_eq_0_iff)
  moreover have "0 \<le> S" by (simp add: S_def)
  ultimately have "0 < S" by simp
  have n: "collision_normal p q = ((a - c) / sqrt S, (b - d) / sqrt S)"
    by (simp add: collision_normal_def distance_to_def linalg_norm_def p q S_def)
  have "sqrt S * sqrt S = S" using \<open>0 < S\<close> by simp
  then have "(a - c) / sqrt S * ((a - c) / sqrt S) + (b - d) / sqrt S * ((b - d) / sqrt S) = S / S"
    by (simp only: unit_quotient [of "a - c" "sqrt S" "b - d"] S_def [symmetric])
  also have "\<dots> = 1" using \<open>0 < S\<close> by simp
  finally show ?thesis by (simp only: n fst_conv snd_conv)
qed

lemma kinetic_energy_pair:
  "velocity p = (a, b) \<Longrightarrow> kinetic_energy p = 0.5 * (mass p * (a * a + b * b))"
  by (simp add: kinetic_energy_def)

lemma resolve_collision_energy:
  assumes m: "0 < mass (h r1)" "0 < mass (h r2)"
  shows "kinetic_energy (resolve_collision r1 r2 h r1) + kinetic_energy (resolve_collision r1 r2 h r2) =
         kinetic_energy (h r1) + kinetic_energy (h r2)"
proof (cases "position (h r1) = position (h r2) \<or> 0 < vel_along_normal (h r1) (h r2)")
  case True
  then have "resolve_collision r1 r2 h = h"
    using resolve_collision_same resolve_collision_separating by blast
  then show ?thesis by simp
next
  case False
  then have ne: "position (h r1) \<noteq> position (h r2)" and vn: "vel_along_normal (h r1) (h r2) \<le> 0"
    by auto
  from ne have r: "r1 \<noteq> r2" by auto
  obtain nx ny where n: "collision_normal (h r1) (h r2) = (nx, ny)"
    by (cases "collision_normal (h r1) (h r2)")
  obtain ax ay where a: "velocity (h r1) = (ax, ay)" by (cases "velocity (h r1)")
  obtain bx by' where b: "velocity (h r2) = (bx, by')" by (cases "velocity (h r2)")
  define j where "j = impulse (h r1) (h r2)"
  define h' where "h' = resolve_collision r1 r2 h"
  from collision_normal_unit [OF ne] have unit: "nx * nx + ny * ny = 1" by (simp add: n)
  have js: "j * (1 / mass (h r1) + 1 / mass (h r2)) = - 2 * ((ax - bx) * nx + (ay - by') * ny)"
  proof -
    have "j * (1 / mass (h r1) + 1 / mass (h r2)) = - 2 * vel_along_normal (h r1) (h r2)"
      unfolding j_def impulse_def by (rule impulse_times [OF m])
    moreover have "vel_along_normal (h r1) (h r2) = (ax - bx) * nx + (ay - by') * ny"
      by (simp add: vel_along_normal_def n a b)
    ultimately show ?thesis by (simp only:)
  qed
  have v1: "velocity (h' r1) = (ax + j / mass (h r1) * nx, ay + j / mass (h r1) * ny)"
    and v2: "velocity (h' r2) = (bx - j / mass (h r2) * nx, by' - j / mass (h r2) * ny)"
    and m1: "mass (h' r1) = mass (h r1)" and m2: "mass (h' r2) = mass (h r2)"
    using r by (simp_all add: h'_def resolve_collision_impulse [OF ne vn] Let_def n a b j_def)
  have "kinetic_energy (h' r1) + kinetic_energy (h' r2) =
        0.5 * (mass (h r1) * ((ax + j / mass (h r1) * nx) * (ax + j / mass (h r1) * nx) +
                              (ay + j / mass (h r1) * ny) * (ay + j / mass (h r1) * ny)) +
               mass (h r2) * ((bx - j / mass (h r2) * nx) * (bx - j / mass (h r2) * nx) +
                              (by' - j / mass (h r2) * ny) * (by' - j / mass (h r2) * ny)))"
    by (simp only: kinetic_energy_pair [OF v1] kinetic_energy_pair [OF v2] m1 m2 distrib_left)
  also have "\<dots> = 0.5 * (mass (h r1) * (ax * ax + ay * ay) + mass (h r2) * (bx * bx + by' * by'))"
    by (simp only: energy_algebra [OF m unit js])
  also have "\<dots> = kinetic_energy (h r1) + kinetic_energy (h r2)"
    by (simp only: kinetic_energy_pair [OF a] kinetic_energy_pair [OF b] distrib_left)
  finally show ?thesis by (simp only: h'_def)
qed

lemma resolve_collision_momentum:
  assumes m: "0 < mass (h r1)" "0 < mass (h r2)"
  shows "vadd (momentum (resolve_collision r1 r2 h r1)) (momentum (resolve_collision r1 r2 h r2)) =
         vadd (momentum (h r1)) (momentum (h r2))"
proof (cases "position (h r1) = position (h r2) \<or> 0 < vel_along_normal (h r1) (h r2)")
  case True
  then have "resolve_collision r1 r2 h = h"
    using resolve_collision_same resolve_collision_separating by blast
  then show ?thesis by simp
next
  case False
  then have ne: "position (h r1) \<noteq> position (h r2)" and vn: "vel_along_normal (h r1) (h r2) \<le> 0"
    by auto
  from ne have r: "r1 \<noteq> r2" by auto
  obtain nx ny where n: "collision_normal (h r1) (h r2) = (nx, ny)"
    by (cases "collision_normal (h r1) (h r2)")
  obtain ax ay where a: "velocity (h r1) = (ax, ay)" by (cases "velocity (h r1)")
  obtain bx by' where b: "velocity (h r2) = (bx, by')" by (cases "velocity (h r2)")
  define j where "j = impulse (h r1) (h r2)"
  define h' where "h' = resolve_collision r1 r2 h"
  have v1: "velocity (h' r1) = (ax + j / mass (h r1) * nx, ay + j / mass (h r1) * ny)"
    and v2: "velocity (h' r2) = (bx - j / mass (h r2) * nx, by' - j / mass (h r2) * ny)"
    and m1: "mass (h' r1) = mass (h r1)" and m2: "mass (h' r2) = mass (h r2)"
    using r by (simp_all add: h'_def resolve_collision_impulse [OF ne vn] Let_def n a b j_def)
  have "vadd (momentum (h' r1)) (momentum (h' r2)) =
        (mass (h r1) * (ax + j / mass (h r1) * nx) + mass (h r2) * (bx - j / mass (h r2) * nx),
         mass (h r1) * (ay + j / mass (h r1) * ny) + mass (h r2) * (by' - j / mass (h r2) * ny))"
    by (simp only: momentum_def v1 v2 m1 m2 vec_simps)
  also have "\<dots> = (mass (h r1) * ax + mass (h r2) * bx, mass (h r1) * ay + mass (h r2) * by')"
    by (simp only: momentum_algebra [OF m])
  also have "\<dots> = vadd (momentum (h r1)) (momentum (h r2))"
    by (simp only: momentum_def a b vec_simps)
  finally show ?thesis by (simp only: h'_def)
qed

section \<open>Conservation in a step of two particles\<close>


lemma update_all_mass [simp]: "mass (update_all dt g ps h r) = mass (h r)"
  by (induction ps arbitrary: h) simp_all

lemma update_all_velocity_zero [simp]: "velocity (update_all dt (0, 0) ps h r) = velocity (h r)"
  by (induction ps arbitrary: h) (simp_all add: vadd_def)

lemma collide_outer_two:
  "collide_outer [a, b] (Suc (Suc 0)) [0 ..< Suc (Suc 0)] h =
     (if collides_with (h a) (h b) then resolve_collision a b h else h)"
  by (simp add: upt_rec Let_def)

lemma step_two:
  assumes "particles s = [a, b]" "bounds s = None" "0 < dt"
  shows "heap (snd (step dt s)) =
     (let h = update_all dt (gravity s) [a, b] (heap s)
      in if collides_with (h a) (h b) then resolve_collision a b h else h)"
    and "particles (snd (step dt s)) = [a, b]"
  using assms by (simp_all add: step_def Let_def handle_particle_collisions_def collide_outer_two)

lemma step_two_momentum:
  assumes s: "particles s = [a, b]" "bounds s = None" and g: "gravity s = (0, 0)"
    and m: "0 < mass (heap s a)" "0 < mass (heap s b)"
  shows "total_momentum (snd (step dt s)) = total_momentum s"
proof (cases "0 < dt")
  case False
  then show ?thesis by (simp add: step_def)
next
  case True
  define h where "h = update_all dt (0, 0) [a, b] (heap s)"
  have hm: "0 < mass (h a)" "0 < mass (h b)" using m by (simp_all add: h_def)
  have st: "heap (snd (step dt s)) =
      (if collides_with (h a) (h b) then resolve_collision a b h else h)"
    using step_two(1) [OF s True] by (simp only: g h_def Let_def)
  have mom: "momentum (h a) = momentum (heap s a)" "momentum (h b) = momentum (heap s b)"
    unfolding momentum_def h_def by (simp_all only: update_all_mass update_all_velocity_zero)
  have "vadd (momentum (heap (snd (step dt s)) a)) (momentum (heap (snd (step dt s)) b)) =
        vadd (momentum (h a)) (momentum (h b))"
    using resolve_collision_momentum [OF hm] by (simp add: st)
  then show ?thesis
    by (simp add: total_momentum_def step_two(2) [OF s True] s(1) mom vadd_def)
qed

lemma step_two_energy:
  assumes s: "particles s = [a, b]" "bounds s = None" and g: "gravity s = (0, 0)"
    and m: "0 < mass (heap s a)" "0 < mass (heap s b)"
  shows "total_kinetic_energy (snd (step dt s)) = total_kinetic_energy s"
proof (cases "0 < dt")
  case False
  then show ?thesis by (simp add: step_def)
next
  case True
  define h where "h = update_all dt (0, 0) [a, b] (heap s)"
  have hm: "0 < mass (h a)" "0 < mass (h b)" using m by (simp_all add: h_def)
  have st: "heap (snd (step dt s)) =
      (if collides_with (h a) (h b) then resolve_collision a b h else h)"
    using step_two(1) [OF s True] by (simp only: g h_def Let_def)
  have ke: "kinetic_energy (h a) = kinetic_energy (heap s a)"
    "kinetic_energy (h b) = kinetic_energy (heap s b)"
    unfolding kinetic_energy_def h_def by (simp_all only: update_all_mass update_all_velocity_zero)
  have "kinetic_energy (heap (snd (step dt s)) a) + kinetic_energy (heap (snd (step dt s)) b) =
        kinetic_energy (h a) + kinetic_energy (h b)"
    using resolve_collision_energy [OF hm] by (simp add: st)
  then show ?thesis
    by (simp add: total_kinetic_energy_def step_two(2) [OF s True] s(1) ke)
qed

text \<open>
  C2. When \<open>_resolve_collision\<close> applies its impulse to two particles of positive mass
  with distinct centres (they collide and their relative velocity along the normal is not
  positive), the sum of the two momenta \<open>m1 * v1 + m2 * v2\<close> is the same after the
  resolution as before. Hence \<open>step\<close> preserves \<open>total_momentum\<close> in a simulation of two
  particles with zero acceleration and no bounds, for every \<open>dt\<close> (a step that is
  refused changes nothing) and also when the two entries are the same object.
\<close>

theorem momentum_conserved:
  "(0 < mass (h r1) \<and> 0 < mass (h r2) \<and> position (h r1) \<noteq> position (h r2) \<and>
    collides_with (h r1) (h r2) \<and> vel_along_normal (h r1) (h r2) \<le> 0 \<longrightarrow>
      vadd (momentum (resolve_collision r1 r2 h r1)) (momentum (resolve_collision r1 r2 h r2)) =
      vadd (momentum (h r1)) (momentum (h r2))) \<and>
   (particles s = [a, b] \<and> gravity s = (0, 0) \<and> bounds s = None \<and>
    0 < mass (heap s a) \<and> 0 < mass (heap s b) \<longrightarrow>
      total_momentum (snd (step dt s)) = total_momentum s)"
  using resolve_collision_momentum [of h r1 r2] step_two_momentum [of s a b dt] by blast

text \<open>
  C3. Under the same conditions the sum of the two kinetic energies
  \<open>0.5 * m1 * |v1|\<^sup>2 + 0.5 * m2 * |v2|\<^sup>2\<close> is the same after the resolution as before (the
  restitution coefficient of the code is the constant 1), and \<open>step\<close> preserves
  \<open>total_kinetic_energy\<close> in a simulation of two particles with zero acceleration and no
  bounds.
\<close>

theorem energy_conserved:
  "(0 < mass (h r1) \<and> 0 < mass (h r2) \<and> position (h r1) \<noteq> position (h r2) \<and>
    collides_with (h r1) (h r2) \<and> vel_along_normal (h r1) (h r2) \<le> 0 \<longrightarrow>
      kinetic_energy (resolve_collision r1 r2 h r1) + kinetic_energy (resolve_collision r1 r2 h r2) =
      kinetic_energy (h r1) + kinetic_energy (h r2)) \<and>
   (particles s = [a, b] \<and> gravity s = (0, 0) \<and> bounds s = None \<and>
    0 < mass (heap s a) \<and> 0 < mass (heap s b) \<longrightarrow>
      total_kinetic_energy (snd (step dt s)) = total_kinetic_energy s)"
  using resolve_collision_energy [of h r1 r2] step_two_energy [of s a b dt] by blast

lemma overlapping_facts:
  "0 < mass (overlapping 0) \<and> 0 < mass (overlapping 1) \<and>
   position (overlapping 0) \<noteq> position (overlapping 1) \<and>
   collides_with (overlapping 0) (overlapping 1) \<and>
   vel_along_normal (overlapping 0) (overlapping 1) \<le> 0"
  by (simp add: overlapping_def collides_with_def distance_to_def linalg_norm_def
      vel_along_normal_def collision_normal_def)

lemma head_on_facts:
  "particles head_on = [0, 1] \<and> gravity head_on = (0, 0) \<and> bounds head_on = None \<and>
   0 < mass (heap head_on 0) \<and> 0 < mass (heap head_on 1)"
  by (simp add: head_on_def)

theorem momentum_conserved_witness:
  "(0 < mass (overlapping 0) \<and> 0 < mass (overlapping 1) \<and>
    position (overlapping 0) \<noteq> position (overlapping 1) \<and>
    collides_with (overlapping 0) (overlapping 1) \<and>
    vel_along_normal (overlapping 0) (overlapping 1) \<le> 0) \<and>
   vadd (momentum (resolve_collision 0 1 overlapping 0))
        (momentum (resolve_collision 0 1 overlapping 1)) = (- 2, 0) \<and>
   (particles head_on = [0, 1] \<and> gravity head_on = (0, 0) \<and> bounds head_on = None \<and>
    0 < mass (heap head_on 0) \<and> 0 < mass (heap head_on 1)) \<and>
   total_momentum (snd (step (1 / 2) head_on)) = (- 2, 0)"
proof -
  have a: "vadd (momentum (overlapping 0)) (momentum (overlapping 1)) = (- 2, 0)"
    by (simp add: overlapping_def momentum_def)
  have b: "total_momentum head_on = (- 2, 0)"
    by (simp add: head_on_def total_momentum_def momentum_def)
  show ?thesis
    using momentum_conserved [of overlapping 0 1 head_on 0 1 "1 / 2"] overlapping_facts head_on_facts
    by (simp only: a b) simp
qed

theorem energy_conserved_witness:
  "(0 < mass (overlapping 0) \<and> 0 < mass (overlapping 1) \<and>
    position (overlapping 0) \<noteq> position (overlapping 1) \<and>
    collides_with (overlapping 0) (overlapping 1) \<and>
    vel_along_normal (overlapping 0) (overlapping 1) \<le> 0) \<and>
   kinetic_energy (resolve_collision 0 1 overlapping 0) +
   kinetic_energy (resolve_collision 0 1 overlapping 1) = 2 \<and>
   (particles head_on = [0, 1] \<and> gravity head_on = (0, 0) \<and> bounds head_on = None \<and>
    0 < mass (heap head_on 0) \<and> 0 < mass (heap head_on 1)) \<and>
   total_kinetic_energy (snd (step (1 / 2) head_on)) = 2"
proof -
  have a: "kinetic_energy (overlapping 0) + kinetic_energy (overlapping 1) = 2"
    by (simp add: overlapping_def kinetic_energy_def)
  have b: "total_kinetic_energy head_on = 2"
    by (simp add: head_on_def total_kinetic_energy_def kinetic_energy_def)
  show ?thesis
    using energy_conserved [of overlapping 0 1 head_on 0 1 "1 / 2"] overlapping_facts head_on_facts
    by (simp only: a b) simp
qed

section \<open>Evaluating binary64\<close>

lemma pow2_powr: "pow2 k = 2 powr of_int k"
proof (cases "0 \<le> k")
  case True
  then show ?thesis by (simp add: pow2_def powr_real_of_int)
next
  case False
  then show ?thesis by (simp add: pow2_def powr_real_of_int inverse_eq_divide)
qed

lemma round_even_eqI: "\<bar>t - of_int n\<bar> < 1 / 2 \<Longrightarrow> round_even t = n"
proof (cases "of_int n \<le> t")
  case True
  assume a: "\<bar>t - of_int n\<bar> < 1 / 2"
  with True have "\<lfloor>t\<rfloor> = n" by (intro floor_unique) auto
  with a True show ?thesis by (simp add: round_even_def Let_def)
next
  case False
  assume a: "\<bar>t - of_int n\<bar> < 1 / 2"
  with False have f: "\<lfloor>t\<rfloor> = n - 1" by (intro floor_unique) auto
  have "1 / 2 < t - of_int (n - 1)" using a False by auto
  then show ?thesis by (simp add: round_even_def Let_def f)
qed

lemma binary64_core:
  fixes x :: real
  assumes "x \<noteq> 0" and "max \<lfloor>log 2 \<bar>x\<bar>\<rfloor> (- 1022) = E"
    and "\<bar>x / pow2 (E - 52) - of_int n\<bar> < 1 / 2"
    and "\<bar>of_int n * pow2 (E - 52)\<bar> < (2::real) ^ 1024"
  shows "binary64 x = Finite (of_int n * pow2 (E - 52))"
proof -
  have r: "round_even (x / pow2 (E - 52)) = n"
    using assms(3) by (rule round_even_eqI)
  show ?thesis
    unfolding binary64_def Let_def assms(2) r using assms(1,4) by simp
qed

lemma binary64_eqI:
  fixes x :: real
  assumes "x \<noteq> 0" and "pow2 e \<le> \<bar>x\<bar>" and "\<bar>x\<bar> < pow2 (e + 1)"
    and "E = max e (- 1022)"
    and "\<bar>x / pow2 (E - 52) - of_int n\<bar> < 1 / 2"
    and "\<bar>of_int n * pow2 (E - 52)\<bar> < (2::real) ^ 1024"
  shows "binary64 x = Finite (of_int n * pow2 (E - 52))"
proof -
  have "\<lfloor>log 2 \<bar>x\<bar>\<rfloor> = e"
    using assms(1-3) by (simp add: floor_log_eq_powr_iff pow2_powr)
  then have "max \<lfloor>log 2 \<bar>x\<bar>\<rfloor> (- 1022) = E" by (simp add: assms(4))
  from binary64_core [OF assms(1) this assms(5) assms(6)] show ?thesis .
qed

lemma binary64_small:
  fixes x :: real
  assumes "x \<noteq> 0" and "\<bar>x\<bar> < pow2 (- 1022)"
    and "\<bar>x / pow2 (- 1074) - of_int n\<bar> < 1 / 2"
    and "\<bar>of_int n * pow2 (- 1074)\<bar> < (2::real) ^ 1024"
  shows "binary64 x = Finite (of_int n * pow2 (- 1074))"
proof -
  have "\<bar>x\<bar> < 2 powr (- 1022)" using assms(2) by (simp add: pow2_powr)
  then have "log 2 \<bar>x\<bar> < - 1022"
    using assms(1) by (simp add: log_less_iff)
  then have "\<lfloor>log 2 \<bar>x\<bar>\<rfloor> < - 1022" by linarith
  then have m: "max \<lfloor>log 2 \<bar>x\<bar>\<rfloor> (- 1022) = - 1022" by simp
  have "binary64 x = Finite (of_int n * pow2 (- 1022 - 52))"
    by (rule binary64_core [OF assms(1) m]) (use assms(3,4) in simp_all)
  then show ?thesis by simp
qed

lemma binary64_dyadic:
  fixes m :: int and k :: nat
  assumes m: "m \<noteq> 0" "\<bar>m\<bar> < 2 ^ 53" and k: "k \<le> 1022"
  shows "binary64 (of_int m / 2 ^ k) = Finite (of_int m / 2 ^ k)"
proof -
  define x :: real where "x = of_int m / 2 ^ k"
  define e where "e = \<lfloor>log 2 \<bar>x\<bar>\<rfloor>"
  have x0: "x \<noteq> 0" using m(1) by (simp add: x_def)
  have ax: "\<bar>x\<bar> = of_int \<bar>m\<bar> / 2 ^ k" by (simp add: x_def)
  have b: "2 powr of_int e \<le> \<bar>x\<bar>" "\<bar>x\<bar> < 2 powr (of_int e + 1)"
    using floor_log_eq_powr_iff [of "\<bar>x\<bar>" 2 e] x0 by (simp_all add: e_def)
  have k2: "(2::real) ^ k = 2 powr of_int (int k)" by (simp add: powr_realpow)
  have "1 \<le> \<bar>m\<bar>" using m(1) by simp
  then have "(1::real) \<le> of_int \<bar>m\<bar>" by linarith
  then have "2 powr (- of_int (int k)) \<le> \<bar>x\<bar>"
    by (simp add: ax k2 powr_minus field_simps)
  with b(2) have "2 powr (- of_int (int k)) < (2::real) powr (of_int e + 1)" by linarith
  then have "- real_of_int (int k) < of_int e + 1" by simp
  then have lo: "- int k \<le> e" by linarith
  have "real_of_int \<bar>m\<bar> < 2 ^ 53" using m(2) by (metis of_int_less_numeral_power_cancel_iff)
  then have "real_of_int \<bar>m\<bar> < 2 powr 53" by simp
  then have "\<bar>x\<bar> < 2 powr (53 - of_int (int k))"
    by (simp add: ax k2 powr_diff field_simps)
  with b(1) have "2 powr of_int e < (2::real) powr (53 - of_int (int k))" by linarith
  then have "real_of_int e < 53 - of_int (int k)" by simp
  then have hi: "e \<le> 52 - int k" by linarith
  define j where "j = nat (52 - int k - e)"
  have j: "int j = 52 - int k - e" using hi by (simp add: j_def)
  have E: "max \<lfloor>log 2 \<bar>x\<bar>\<rfloor> (- 1022) = e" using lo k by (simp add: e_def [symmetric])
  have inv: "inverse ((2::real) powr (real_of_int e - 52)) = 2 powr (52 - real_of_int e)"
    using powr_minus [of "2::real" "real_of_int e - 52"] by simp
  have "x / pow2 (e - 52) = of_int m * (2 powr (- of_int (int k)) * 2 powr (- (of_int e - 52)))"
    by (simp add: x_def pow2_powr k2 powr_minus divide_inverse mult.assoc inv)
  also have "2 powr (- real_of_int (int k)) * 2 powr (- (of_int e - 52)) = 2 powr of_int (int j)"
    by (simp add: powr_add [symmetric] j algebra_simps)
  also have "\<dots> = 2 ^ j" by (simp add: powr_realpow)
  finally have q: "x / pow2 (e - 52) = of_int (m * 2 ^ j)" by simp
  have p0: "pow2 (e - 52) \<noteq> 0" by (simp add: pow2_powr)
  from q have xq: "of_int (m * 2 ^ j) * pow2 (e - 52) = x"
    using p0 by (simp add: field_simps)
  have "(1::real) \<le> 2 ^ k" by simp
  then have "\<bar>real_of_int m\<bar> * 1 \<le> \<bar>real_of_int m\<bar> * 2 ^ k"
    by (intro mult_left_mono) simp_all
  then have "\<bar>x\<bar> \<le> of_int \<bar>m\<bar>"
    by (simp add: ax divide_le_eq)
  with \<open>real_of_int \<bar>m\<bar> < 2 ^ 53\<close> have "\<bar>x\<bar> < 2 ^ 53" by linarith
  also have "(2::real) ^ 53 \<le> 2 ^ 1024" by (rule power_increasing) simp_all
  finally have small: "\<bar>of_int (m * 2 ^ j) * pow2 (e - 52)\<bar> < (2::real) ^ 1024"
    by (simp only: xq)
  have "binary64 x = Finite (of_int (m * 2 ^ j) * pow2 (e - 52))"
    by (rule binary64_core [OF x0 E _ small]) (simp add: q)
  then show ?thesis by (simp only: xq x_def)
qed

lemma binary64_of_int: "\<bar>m\<bar> < 2 ^ 53 \<Longrightarrow> binary64 (of_int m) = Finite (of_int m)"
proof (cases "m = 0")
  case True
  then show ?thesis by (simp add: binary64_def)
next
  case False
  assume "\<bar>m\<bar> < 2 ^ 53"
  from binary64_dyadic [OF False this, of 0] show ?thesis by simp
qed

lemma binary64_numeral [simp]:
  "(numeral n :: int) < 2 ^ 53 \<Longrightarrow> binary64 (numeral n) = Finite (numeral n)"
  "(numeral n :: int) < 2 ^ 53 \<Longrightarrow> binary64 (- numeral n) = Finite (- numeral n)"
  "binary64 0 = Finite 0" "binary64 1 = Finite 1" "binary64 (- 1) = Finite (- 1)"
  using binary64_of_int [of "numeral n"] binary64_of_int [of "- numeral n"]
    binary64_of_int [of 0] binary64_of_int [of 1] binary64_of_int [of "- 1"]
  by simp_all

lemma binary64_arith_simps [simp]:
  "fadd binary64_arith = ieee_add binary64"
  "fsub binary64_arith = (\<lambda>x y. ieee_add binary64 x (fl_neg y))"
  "fmul binary64_arith = ieee_mul binary64"
  "fdiv binary64_arith = ieee_div binary64"
  "fdot binary64_arith =
     (\<lambda>a b. ieee_add binary64 (ieee_mul binary64 (fst a) (fst b)) (ieee_mul binary64 (snd a) (snd b)))"
  "fnorm binary64_arith =
     (\<lambda>a. ieee_sqrt binary64
             (ieee_add binary64 (ieee_mul binary64 (fst a) (fst a)) (ieee_mul binary64 (snd a) (snd a))))"
  "flit binary64_arith = binary64"
  by (simp_all add: binary64_arith_def ieee_def)

lemma fl_abs_idem [simp]: "fl_abs (fl_abs x) = fl_abs x"
  by (cases x) simp_all

lemma fl_lt_irrefl [simp]: "\<not> fl_lt x x"
  by (cases x) simp_all

lemma fl_eq_not_lt: "fl_eq x y \<Longrightarrow> \<not> fl_lt x y"
  by (cases x; cases y) simp_all

section \<open>Boundary reflection\<close>

lemma fl_reflect_fields:
  "fst (fl_position (fl_reflect A (w, h) p)) =
     (let x = (if fl_lt (fsub A (fst (fl_position p)) (fl_radius p)) (Finite 0)
               then fl_radius p else fst (fl_position p))
      in if fl_gt (fadd A x (fl_radius p)) w then fsub A w (fl_radius p) else x)"
  "snd (fl_position (fl_reflect A (w, h) p)) =
     (let y = (if fl_lt (fsub A (snd (fl_position p)) (fl_radius p)) (Finite 0)
               then fl_radius p else snd (fl_position p))
      in if fl_gt (fadd A y (fl_radius p)) h then fsub A h (fl_radius p) else y)"
  "fst (fl_velocity (fl_reflect A (w, h) p)) =
     (let x = (if fl_lt (fsub A (fst (fl_position p)) (fl_radius p)) (Finite 0)
               then fl_radius p else fst (fl_position p));
          v = (if fl_lt (fsub A (fst (fl_position p)) (fl_radius p)) (Finite 0)
               then fl_abs (fst (fl_velocity p)) else fst (fl_velocity p))
      in if fl_gt (fadd A x (fl_radius p)) w then fl_neg (fl_abs v) else v)"
  "snd (fl_velocity (fl_reflect A (w, h) p)) =
     (let y = (if fl_lt (fsub A (snd (fl_position p)) (fl_radius p)) (Finite 0)
               then fl_radius p else snd (fl_position p));
          v = (if fl_lt (fsub A (snd (fl_position p)) (fl_radius p)) (Finite 0)
               then fl_abs (snd (fl_velocity p)) else snd (fl_velocity p))
      in if fl_gt (fadd A y (fl_radius p)) h then fl_neg (fl_abs v) else v)"
  "fl_mass (fl_reflect A (w, h) p) = fl_mass p"
  "fl_radius (fl_reflect A (w, h) p) = fl_radius p"
  by (simp_all add: fl_reflect_def Let_def split: prod.splits)

lemma fl_reflect_all_heap:
  "fl_reflect_all A wh ps h q = (fl_reflect A wh ^^ count_list ps q) (h q)"
  by (induction ps arbitrary: h) (simp_all add: funpow_swap1)

lemma fl_handle_boundary_heap:
  "fl_bounds s = Some wh \<Longrightarrow>
   fl_heap (fl_handle_boundary_collisions A s) q =
     (fl_reflect A wh ^^ count_list (fl_particles s) q) (fl_heap s q)"
  by (simp add: fl_handle_boundary_collisions_def fl_reflect_all_heap)

text \<open>
  C5 (as amended). With bounds \<open>(w, h)\<close>, \<open>_handle_boundary_collisions\<close> reflects every
  held particle, once for each time it is held, and leaves the other objects alone;
  without bounds it does nothing. The reflection treats the two axes separately, in the
  same pass, and keeps mass and radius; all its tests are float comparisons of float sums
  and differences. On the x axis, when \<open>x - r < 0\<close>: the position is set to \<open>r\<close> and the
  velocity to \<open>abs(vx)\<close>, and the test of the right wall is then made on the corrected
  position, so the particle stays at \<open>x = r\<close> with velocity \<open>abs(vx)\<close> unless
  \<open>r + r > w\<close>, and ends at \<open>x = w - r\<close> with velocity \<open>-abs(vx)\<close> if \<open>r + r > w\<close>. When
  \<open>x - r < 0\<close> is false: the particle ends at \<open>x = w - r\<close> with velocity \<open>-abs(vx)\<close> if
  \<open>x + r > w\<close>, and keeps \<open>x\<close> and \<open>vx\<close> otherwise. The y axis is treated the same way
  against \<open>0\<close> and \<open>h\<close>.
\<close>

theorem boundary_reflection:
  "(let x = fst (fl_position p); y = snd (fl_position p);
        vx = fst (fl_velocity p); vy = snd (fl_velocity p); r = fl_radius p;
        p' = fl_reflect A (w, h) p;
        x' = fst (fl_position p'); y' = snd (fl_position p');
        vx' = fst (fl_velocity p'); vy' = snd (fl_velocity p')
    in (fl_lt (fsub A x r) (Finite 0) \<and> \<not> fl_gt (fadd A r r) w \<longrightarrow> x' = r \<and> vx' = fl_abs vx) \<and>
       (fl_lt (fsub A x r) (Finite 0) \<and> fl_gt (fadd A r r) w \<longrightarrow>
          x' = fsub A w r \<and> vx' = fl_neg (fl_abs vx)) \<and>
       (\<not> fl_lt (fsub A x r) (Finite 0) \<and> fl_gt (fadd A x r) w \<longrightarrow>
          x' = fsub A w r \<and> vx' = fl_neg (fl_abs vx)) \<and>
       (\<not> fl_lt (fsub A x r) (Finite 0) \<and> \<not> fl_gt (fadd A x r) w \<longrightarrow> x' = x \<and> vx' = vx) \<and>
       (fl_lt (fsub A y r) (Finite 0) \<and> \<not> fl_gt (fadd A r r) h \<longrightarrow> y' = r \<and> vy' = fl_abs vy) \<and>
       (fl_lt (fsub A y r) (Finite 0) \<and> fl_gt (fadd A r r) h \<longrightarrow>
          y' = fsub A h r \<and> vy' = fl_neg (fl_abs vy)) \<and>
       (\<not> fl_lt (fsub A y r) (Finite 0) \<and> fl_gt (fadd A y r) h \<longrightarrow>
          y' = fsub A h r \<and> vy' = fl_neg (fl_abs vy)) \<and>
       (\<not> fl_lt (fsub A y r) (Finite 0) \<and> \<not> fl_gt (fadd A y r) h \<longrightarrow> y' = y \<and> vy' = vy) \<and>
       fl_mass p' = fl_mass p \<and> fl_radius p' = fl_radius p) \<and>
   (fl_bounds s = Some (w, h) \<longrightarrow>
      fl_heap (fl_handle_boundary_collisions A s) q =
        (fl_reflect A (w, h) ^^ count_list (fl_particles s) q) (fl_heap s q)) \<and>
   (fl_bounds s = None \<longrightarrow> fl_handle_boundary_collisions A s = s)"
proof (intro conjI)
  show "let x = fst (fl_position p); y = snd (fl_position p);
        vx = fst (fl_velocity p); vy = snd (fl_velocity p); r = fl_radius p;
        p' = fl_reflect A (w, h) p;
        x' = fst (fl_position p'); y' = snd (fl_position p');
        vx' = fst (fl_velocity p'); vy' = snd (fl_velocity p')
    in (fl_lt (fsub A x r) (Finite 0) \<and> \<not> fl_gt (fadd A r r) w \<longrightarrow> x' = r \<and> vx' = fl_abs vx) \<and>
       (fl_lt (fsub A x r) (Finite 0) \<and> fl_gt (fadd A r r) w \<longrightarrow>
          x' = fsub A w r \<and> vx' = fl_neg (fl_abs vx)) \<and>
       (\<not> fl_lt (fsub A x r) (Finite 0) \<and> fl_gt (fadd A x r) w \<longrightarrow>
          x' = fsub A w r \<and> vx' = fl_neg (fl_abs vx)) \<and>
       (\<not> fl_lt (fsub A x r) (Finite 0) \<and> \<not> fl_gt (fadd A x r) w \<longrightarrow> x' = x \<and> vx' = vx) \<and>
       (fl_lt (fsub A y r) (Finite 0) \<and> \<not> fl_gt (fadd A r r) h \<longrightarrow> y' = r \<and> vy' = fl_abs vy) \<and>
       (fl_lt (fsub A y r) (Finite 0) \<and> fl_gt (fadd A r r) h \<longrightarrow>
          y' = fsub A h r \<and> vy' = fl_neg (fl_abs vy)) \<and>
       (\<not> fl_lt (fsub A y r) (Finite 0) \<and> fl_gt (fadd A y r) h \<longrightarrow>
          y' = fsub A h r \<and> vy' = fl_neg (fl_abs vy)) \<and>
       (\<not> fl_lt (fsub A y r) (Finite 0) \<and> \<not> fl_gt (fadd A y r) h \<longrightarrow> y' = y \<and> vy' = vy) \<and>
       fl_mass p' = fl_mass p \<and> fl_radius p' = fl_radius p"
    by (simp add: fl_reflect_fields Let_def)
next
  show "fl_bounds s = Some (w, h) \<longrightarrow>
      fl_heap (fl_handle_boundary_collisions A s) q =
        (fl_reflect A (w, h) ^^ count_list (fl_particles s) q) (fl_heap s q)"
    using fl_handle_boundary_heap [of s "(w, h)" A q] by blast
next
  show "fl_bounds s = None \<longrightarrow> fl_handle_boundary_collisions A s = s"
    by (simp add: fl_handle_boundary_collisions_def)
qed

theorem boundary_reflection_witness:
  "fl_bounds fl_boxed = Some (Finite 10, Finite 10) \<and> fl_particles fl_boxed = [0, 1] \<and>
   fl_position (fl_heap fl_boxed 0) = (Finite (- 1), Finite 12) \<and>
   fl_velocity (fl_heap fl_boxed 0) = (Finite (- 3), Finite 2) \<and>
   fl_radius (fl_heap fl_boxed 0) = Finite 2 \<and>
   fl_position (fl_heap (fl_handle_boundary_collisions binary64_arith fl_boxed) 0) = (Finite 2, Finite 8) \<and>
   fl_velocity (fl_heap (fl_handle_boundary_collisions binary64_arith fl_boxed) 0) = (Finite 3, Finite (- 2)) \<and>
   fl_position (fl_heap (fl_handle_boundary_collisions binary64_arith fl_boxed) 1) = (Finite 5, Finite 5) \<and>
   fl_velocity (fl_heap (fl_handle_boundary_collisions binary64_arith fl_boxed) 1) = (Finite 1, Finite 1) \<and>
   fl_lt (fsub binary64_arith (fst (fl_position fl_squeezed)) (fl_radius fl_squeezed)) (Finite 0) \<and>
   fl_gt (fadd binary64_arith (fl_radius fl_squeezed) (fl_radius fl_squeezed)) (Finite 1) \<and>
   fst (fl_position (fl_reflect binary64_arith (Finite 1, Finite 4) fl_squeezed)) = Finite 0"
proof -
  have b: "fl_bounds fl_boxed = Some (Finite 10, Finite 10)" "fl_particles fl_boxed = [0, 1]"
    "fl_position (fl_heap fl_boxed 0) = (Finite (- 1), Finite 12)"
    "fl_velocity (fl_heap fl_boxed 0) = (Finite (- 3), Finite 2)"
    "fl_radius (fl_heap fl_boxed 0) = Finite 2"
    "fl_position (fl_heap fl_boxed (Suc 0)) = (Finite 5, Finite 5)"
    "fl_velocity (fl_heap fl_boxed (Suc 0)) = (Finite 1, Finite 1)"
    "fl_radius (fl_heap fl_boxed (Suc 0)) = Finite 1"
    by (simp_all add: fl_boxed_def)
  have s: "fl_position fl_squeezed = (Finite (- 1), Finite 1)" "fl_radius fl_squeezed = Finite 1"
    by (simp_all add: fl_squeezed_def)
  show ?thesis
    using boundary_reflection [of "fl_heap fl_boxed 0" binary64_arith "Finite 10" "Finite 10" fl_boxed 0]
      boundary_reflection [of "fl_heap fl_boxed 1" binary64_arith "Finite 10" "Finite 10" fl_boxed 1]
      boundary_reflection [of fl_squeezed binary64_arith "Finite 1" "Finite 4" fl_boxed 0]
    by (simp add: b s Let_def prod_eq_iff fl_gt_def)
qed

text \<open>
  C5 as stated fails for a particle wider than the box: its left edge is beyond the left
  wall, yet it does not end at \<open>x = radius\<close> with velocity \<open>abs(vx)\<close>, since the test of
  the right wall follows on the corrected position.
\<close>

theorem boundary_reflection_counterexample:
  "fl_lt (fsub binary64_arith (fst (fl_position fl_squeezed)) (fl_radius fl_squeezed)) (Finite 0) \<and>
   fl_radius fl_squeezed = Finite 1 \<and>
   fst (fl_position (fl_reflect binary64_arith (Finite 1, Finite 4) fl_squeezed)) = Finite 0 \<and>
   fl_abs (fst (fl_velocity fl_squeezed)) = Finite 1 \<and>
   fst (fl_velocity (fl_reflect binary64_arith (Finite 1, Finite 4) fl_squeezed)) = Finite (- 1)"
  by (simp add: fl_squeezed_def fl_reflect_def Let_def fl_gt_def)

section \<open>Collision detection\<close>

lemma sum_squares_not_neg [simp]: "\<not> (a::real) * a + b * b < 0"
  by (simp add: not_less)

text \<open>
  C6 (as amended). \<open>collides_with\<close> holds exactly when \<open>distance_to\<close>, the float norm
  of the float difference of the two positions, is strictly less than the float sum of
  the two radii; two particles whose computed distance is equal to the computed sum do
  not collide. Without rounding (finite values, exact operations) the comparison is that
  of the Euclidean distance of the centres with the sum of the radii.
\<close>

theorem collides_iff_distance:
  "(fl_collides_with A p q \<longleftrightarrow>
      fl_lt (fl_distance_to A p q) (fadd A (fl_radius p) (fl_radius q))) \<and>
   fl_distance_to A p q =
     fnorm A (fsub A (fst (fl_position p)) (fst (fl_position q)),
              fsub A (snd (fl_position p)) (snd (fl_position q))) \<and>
   (fl_eq (fl_distance_to A p q) (fadd A (fl_radius p) (fl_radius q)) \<longrightarrow>
      \<not> fl_collides_with A p q) \<and>
   (fl_position p = (Finite x1, Finite y1) \<and> fl_position q = (Finite x2, Finite y2) \<and>
    fl_radius p = Finite r1 \<and> fl_radius q = Finite r2 \<longrightarrow>
      (fl_collides_with (ieee Finite) p q \<longleftrightarrow> sqrt ((x1 - x2)\<^sup>2 + (y1 - y2)\<^sup>2) < r1 + r2))"
proof (intro conjI impI)
  show "fl_collides_with A p q \<longleftrightarrow>
      fl_lt (fl_distance_to A p q) (fadd A (fl_radius p) (fl_radius q))"
    by (simp add: fl_collides_with_def)
  show "fl_distance_to A p q =
     fnorm A (fsub A (fst (fl_position p)) (fst (fl_position q)),
              fsub A (snd (fl_position p)) (snd (fl_position q)))"
    by (simp add: fl_distance_to_def fl_vsub_def)
  show "\<not> fl_collides_with A p q"
    if "fl_eq (fl_distance_to A p q) (fadd A (fl_radius p) (fl_radius q))"
    using fl_eq_not_lt [OF that] by (simp add: fl_collides_with_def)
  show "fl_collides_with (ieee Finite) p q \<longleftrightarrow> sqrt ((x1 - x2)\<^sup>2 + (y1 - y2)\<^sup>2) < r1 + r2"
    if "fl_position p = (Finite x1, Finite y1) \<and> fl_position q = (Finite x2, Finite y2) \<and>
        fl_radius p = Finite r1 \<and> fl_radius q = Finite r2"
    using that
    by (simp add: fl_collides_with_def fl_distance_to_def fl_vsub_def ieee_def power2_eq_square)
qed

theorem collides_iff_distance_witness:
  "fl_eq (fl_distance_to binary64_arith (fl_touching 0) (fl_touching 1))
         (fadd binary64_arith (fl_radius (fl_touching 0)) (fl_radius (fl_touching 1))) \<and>
   fl_distance_to binary64_arith (fl_touching 0) (fl_touching 1) = Finite 2 \<and>
   \<not> fl_collides_with binary64_arith (fl_touching 0) (fl_touching 1) \<and>
   \<not> fl_collides_with (ieee Finite) (fl_touching 0) (fl_touching 1)"
proof -
  have d: "fl_distance_to binary64_arith (fl_touching 0) (fl_touching 1) = Finite 2"
    by (simp add: fl_distance_to_def fl_vsub_def fl_touching_def)
  have s: "fadd binary64_arith (fl_radius (fl_touching 0)) (fl_radius (fl_touching 1)) = Finite 2"
    by (simp add: fl_touching_def)
  have f: "fl_position (fl_touching 0) = (Finite 0, Finite 0) \<and>
      fl_position (fl_touching 1) = (Finite 2, Finite 0) \<and>
      fl_radius (fl_touching 0) = Finite 1 \<and> fl_radius (fl_touching 1) = Finite 1"
    by (simp add: fl_touching_def)
  show ?thesis
    using collides_iff_distance [of binary64_arith "fl_touching 0" "fl_touching 1" 0 0 2 0 1 1] f
    by (simp add: d s)
qed

lemma sqrt_bracket:
  fixes y :: real
  assumes "0 \<le> lo" "lo\<^sup>2 < y" "y < hi\<^sup>2" "0 \<le> hi"
  shows "lo < sqrt y" "sqrt y < hi"
  using assms by (simp_all add: real_less_rsqrt real_less_lsqrt)

lemma g_diff: "binary64 (- (7205759403792793 / 2 ^ 53)) = Finite (- (7205759403792793 / 2 ^ 53))"
  using binary64_dyadic [of "- 7205759403792793" 53] by simp

lemma g_square:
  "binary64 (7205759403792793 / 2 ^ 53 * (7205759403792793 / 2 ^ 53)) =
   Finite (5764607523034234 / 2 ^ 53)"
  using binary64_eqI [of "7205759403792793 / 2 ^ 53 * (7205759403792793 / 2 ^ 53)" "- 1" "- 1"
      5764607523034234]
  by (simp add: pow2_def)

lemma g_square_again: "binary64 (5764607523034234 / 2 ^ 53) = Finite (5764607523034234 / 2 ^ 53)"
  using binary64_dyadic [of 5764607523034234 53] by simp

lemma g_root:
  "binary64 (sqrt (5764607523034234 / 2 ^ 53)) = Finite (7205759403792793 / 2 ^ 53)"
proof -
  define y :: real where "y = 5764607523034234 / 2 ^ 53"
  have a: "(1 / 2 :: real) < sqrt y" "sqrt y < 1"
    by (rule sqrt_bracket [of "1 / 2" y 1]; simp add: y_def power2_eq_square)+
  have b: "(7205759403792793 - 1 / 2) / 2 ^ 53 < sqrt y" "sqrt y < (7205759403792793 + 1 / 2) / 2 ^ 53"
    by (rule sqrt_bracket [of "(7205759403792793 - 1 / 2) / 2 ^ 53" y
          "(7205759403792793 + 1 / 2) / 2 ^ 53"]; simp add: y_def power2_eq_square)+
  have c: "\<bar>sqrt y / pow2 (- 1 - 52) - of_int 7205759403792793\<bar> < 1 / 2"
  proof -
    have "sqrt y / pow2 (- 1 - 52) = sqrt y * 2 ^ 53" by (simp add: pow2_def)
    moreover from b have "7205759403792793 - 1 / 2 < sqrt y * 2 ^ 53"
      "sqrt y * 2 ^ 53 < 7205759403792793 + 1 / 2"
      by (simp_all add: field_simps)
    ultimately show ?thesis by (simp only: abs_less_iff of_int_numeral) linarith
  qed
  from a(1) have p0: "0 < sqrt y" by linarith
  then have p: "\<bar>sqrt y\<bar> = sqrt y" by (simp only: abs_of_pos)
  have p1: "sqrt y \<noteq> 0" using p0 by linarith
  have p2: "pow2 (- 1) \<le> \<bar>sqrt y\<bar>" using a(1) by (simp add: pow2_def p)
  have p3: "\<bar>sqrt y\<bar> < pow2 (- 1 + 1)" using a(2) by (simp add: pow2_def p)
  have p4: "(- 1 :: int) = max (- 1) (- 1022)" by simp
  have p6: "\<bar>of_int 7205759403792793 * pow2 (- 1 - 52)\<bar> < (2::real) ^ 1024"
    by (simp add: pow2_def)
  have "binary64 (sqrt y) = Finite (of_int 7205759403792793 * pow2 (- 1 - 52))"
    by (rule binary64_eqI [OF p1 p2 p3 p4 c p6])
  then show ?thesis by (simp add: y_def pow2_def)
qed

lemma g_radii:
  "binary64 (3602879701896397 / 2 ^ 55 + 3152519739159347 / 2 ^ 52) =
   Finite (7205759403792793 / 2 ^ 53)"
  using binary64_eqI [of "3602879701896397 / 2 ^ 55 + 3152519739159347 / 2 ^ 52" "- 1" "- 1"
      7205759403792793]
  by (simp add: pow2_def)

lemma g_exact_distance:
  "sqrt ((0 - 7205759403792793 / 2 ^ 53)\<^sup>2 + (0 - 0)\<^sup>2) = (7205759403792793 / 2 ^ 53 :: real)"
proof -
  have "sqrt ((0 - d)\<^sup>2 + (0 - 0)\<^sup>2) = d" if "0 \<le> d" for d :: real
    using that by simp
  from this [of "7205759403792793 / 2 ^ 53"] show ?thesis by simp
qed

text \<open>
  C6 as stated fails in binary64: the centres of the two particles are
  \<open>0.7999999999999999\<close> apart, which is less than the sum of their radii, and the
  particles do not collide, since the float sum \<open>0.1 + 0.7\<close> is \<open>0.7999999999999999\<close>.
\<close>

theorem collides_iff_distance_counterexample:
  "fl_position (fl_grazing 0) = (Finite 0, Finite 0) \<and>
   fl_position (fl_grazing 1) = (Finite (7205759403792793 / 2 ^ 53), Finite 0) \<and>
   fl_radius (fl_grazing 0) = Finite (3602879701896397 / 2 ^ 55) \<and>
   fl_radius (fl_grazing 1) = Finite (3152519739159347 / 2 ^ 52) \<and>
   sqrt ((0 - 7205759403792793 / 2 ^ 53)\<^sup>2 + (0 - 0)\<^sup>2)
     < (3602879701896397 / 2 ^ 55 + 3152519739159347 / 2 ^ 52 :: real) \<and>
   \<not> fl_collides_with binary64_arith (fl_grazing 0) (fl_grazing 1)"
proof -
  have "sqrt ((0 - 7205759403792793 / 2 ^ 53)\<^sup>2 + (0 - 0)\<^sup>2)
     < (3602879701896397 / 2 ^ 55 + 3152519739159347 / 2 ^ 52 :: real)"
    by (simp only: g_exact_distance) simp
  moreover have "\<not> fl_collides_with binary64_arith (fl_grazing 0) (fl_grazing 1)"
    using g_diff g_square g_square_again g_root g_radii
    by (simp add: fl_collides_with_def fl_distance_to_def fl_vsub_def fl_grazing_def)
  ultimately show ?thesis by (simp add: fl_grazing_def)
qed

section \<open>Running the simulation\<close>

lemma fl_record_positions_length:
  "length (fl_record_positions h ir hs) = length hs"
  by (induction h ir hs rule: fl_record_positions.induct) simp_all

lemma fl_record_positions_nth:
  "k + length ps \<le> length hs \<Longrightarrow> i < length hs \<Longrightarrow>
   fl_record_positions h (enumerate k ps) hs ! i =
      (if k \<le> i \<and> i < k + length ps then hs ! i @ [fl_position (h (ps ! (i - k)))] else hs ! i)"
proof (induction ps arbitrary: k hs)
  case Nil
  then show ?case by simp
next
  case (Cons r rs)
  let ?hs = "hs[k := hs ! k @ [fl_position (h r)]]"
  from Cons.prems have len: "Suc k + length rs \<le> length ?hs" and i: "i < length ?hs" by simp_all
  have "fl_record_positions h (enumerate k (r # rs)) hs ! i =
      fl_record_positions h (enumerate (Suc k) rs) ?hs ! i"
    by simp
  also have "\<dots> = (if Suc k \<le> i \<and> i < Suc k + length rs
       then ?hs ! i @ [fl_position (h (rs ! (i - Suc k)))] else ?hs ! i)"
    by (rule Cons.IH [OF len i])
  also have "\<dots> = (if k \<le> i \<and> i < k + length (r # rs)
        then hs ! i @ [fl_position (h ((r # rs) ! (i - k)))] else hs ! i)"
  proof (cases "i = k")
    case True
    then show ?thesis using Cons.prems by simp
  next
    case False
    show ?thesis
    proof (cases "Suc k \<le> i")
      case True
      then obtain d where d: "i = Suc k + d" using le_Suc_ex by blast
      show ?thesis using False Cons.prems by (simp add: d)
    next
      case False
      with \<open>i \<noteq> k\<close> have "i < k" by simp
      then show ?thesis by simp
    qed
  qed
  finally show ?case .
qed

lemma fl_record_positions_map:
  assumes "length hs = length ps"
  shows "fl_record_positions h (enumerate 0 ps) hs =
         map (\<lambda>i. hs ! i @ [fl_position (h (ps ! i))]) [0 ..< length ps]"
proof (rule nth_equalityI)
  show "length (fl_record_positions h (enumerate 0 ps) hs) =
        length (map (\<lambda>i. hs ! i @ [fl_position (h (ps ! i))]) [0 ..< length ps])"
    by (simp add: fl_record_positions_length assms)
next
  fix i assume "i < length (fl_record_positions h (enumerate 0 ps) hs)"
  then have i: "i < length hs" by (simp add: fl_record_positions_length)
  have "0 + length ps \<le> length hs" by (simp add: assms)
  from fl_record_positions_nth [OF this i, of h]
  show "fl_record_positions h (enumerate 0 ps) hs ! i =
        map (\<lambda>i. hs ! i @ [fl_position (h (ps ! i))]) [0 ..< length ps] ! i"
    using i assms by simp
qed

lemma fl_positive_not_le: "fl_lt (Finite 0) dt \<Longrightarrow> \<not> fl_le dt (Finite 0)"
  by (cases dt) simp_all

lemma fl_positive_not_zero: "fl_lt (Finite 0) dt \<Longrightarrow> \<not> fl_eq dt (Finite 0)"
  by (cases dt) simp_all

lemma fl_step_ok:
  assumes "fl_lt (Finite 0) dt"
  shows "fst (fl_step A dt s) = Inr ()" "fl_particles (snd (fl_step A dt s)) = fl_particles s"
    "fl_time (snd (fl_step A dt s)) = fadd A (fl_time s) dt"
  using fl_positive_not_le [OF assms]
  by (simp_all add: fl_step_def Let_def fl_handle_particle_collisions_def
      fl_handle_boundary_collisions_def split: option.splits)

lemma fl_steps_particles:
  "fl_lt (Finite 0) dt \<Longrightarrow> fl_particles (((\<lambda>s. snd (fl_step A dt s)) ^^ k) s) = fl_particles s"
  by (induction k) (simp_all add: fl_step_ok)

lemma fl_steps_time:
  "fl_lt (Finite 0) dt \<Longrightarrow>
   fl_time (((\<lambda>s. snd (fl_step A dt s)) ^^ k) s) = ((\<lambda>t. fadd A t dt) ^^ k) (fl_time s)"
  by (induction k) (simp_all add: fl_step_ok)

lemma map_upt_Suc0: "map f [0 ..< Suc n] = f 0 # map (\<lambda>k. f (Suc k)) [0 ..< n]"
  by (induction n) simp_all

lemma histories_extend:
  "map (\<lambda>i. map (\<lambda>i. hs ! i @ [f 0 i]) [0 ..< m] ! i @ map (\<lambda>k. f (Suc k) i) [0 ..< n]) [0 ..< m] =
   map (\<lambda>i. hs ! i @ map (\<lambda>k. f k i) [0 ..< Suc n]) [0 ..< m]"
proof (rule map_cong [OF refl])
  fix i assume "i \<in> set [0 ..< m]"
  then have i: "i < m" by simp
  have "map (\<lambda>k. f k i) [0 ..< Suc n] = f 0 i # map (\<lambda>k. f (Suc k) i) [0 ..< n]"
    by (rule map_upt_Suc0)
  then show "map (\<lambda>i. hs ! i @ [f 0 i]) [0 ..< m] ! i @ map (\<lambda>k. f (Suc k) i) [0 ..< n] =
        hs ! i @ map (\<lambda>k. f k i) [0 ..< Suc n]"
    using i by (simp del: upt_Suc)
qed

lemma fl_run_loop_histories:
  assumes "fl_lt (Finite 0) dt"
  shows "length hs = length (fl_particles s) \<Longrightarrow>
    fl_run_loop A n dt s hs =
      (Inr (map (\<lambda>i. hs ! i @ map (\<lambda>k. fl_position (fl_heap (((\<lambda>s. snd (fl_step A dt s)) ^^ k) s)
                                                   (fl_particles s ! i)))
                                  [0 ..< n])
                [0 ..< length (fl_particles s)]),
       ((\<lambda>s. snd (fl_step A dt s)) ^^ n) s)"
proof (induction n arbitrary: s hs)
  case 0
  have "map (\<lambda>i. hs ! i) [0 ..< length (fl_particles s)] = hs"
    by (simp only: "0.prems" [symmetric] map_nth)
  then show ?case by simp
next
  case (Suc n)
  define F where "F = (\<lambda>s. snd (fl_step A dt s))"
  define ps where "ps = fl_particles s"
  define f where "f = (\<lambda>k i. fl_position (fl_heap ((F ^^ k) s) (ps ! i)))"
  define hs1 where "hs1 = map (\<lambda>i. hs ! i @ [f 0 i]) [0 ..< length ps]"
  have st: "fl_step A dt s = (Inr (), F s)"
    using fl_step_ok(1) [OF assms, of A s] by (simp add: prod_eq_iff F_def)
  have p: "fl_particles (F s) = ps" by (simp add: fl_step_ok(2) [OF assms] F_def ps_def)
  have len: "length hs1 = length (fl_particles (F s))" by (simp add: p hs1_def)
  have sw: "(F ^^ k) (F s) = (F ^^ Suc k) s" for k by (simp add: funpow_swap1)
  have "fl_record_positions (fl_heap s) (enumerate 0 (fl_particles s)) hs = hs1"
    using fl_record_positions_map [OF Suc.prems, of "fl_heap s"] by (simp add: hs1_def f_def ps_def)
  then have "fl_run_loop A (Suc n) dt s hs = fl_run_loop A n dt (F s) hs1"
    by (simp add: st)
  also have "\<dots> = (Inr (map (\<lambda>i. hs1 ! i @ map (\<lambda>k. fl_position (fl_heap ((F ^^ k) (F s))
                                                      (fl_particles (F s) ! i)))
                                  [0 ..< n])
                [0 ..< length (fl_particles (F s))]),
       (F ^^ n) (F s))"
    unfolding F_def by (rule Suc.IH [OF len [unfolded F_def]])
  also have "\<dots> = (Inr (map (\<lambda>i. hs1 ! i @ map (\<lambda>k. f (Suc k) i) [0 ..< n]) [0 ..< length ps]),
       (F ^^ Suc n) s)"
    by (simp only: p sw f_def)
  also have "\<dots> = (Inr (map (\<lambda>i. hs ! i @ map (\<lambda>k. f k i) [0 ..< Suc n]) [0 ..< length ps]),
       (F ^^ Suc n) s)"
    by (simp only: hs1_def histories_extend)
  finally show ?case by (simp only: f_def ps_def F_def)
qed

lemma nat_trunc: "nat (if 0 \<le> x then \<lfloor>x\<rfloor> else \<lceil>x\<rceil>) = nat \<lfloor>x::real\<rfloor>"
proof (cases "0 \<le> x")
  case True
  then show ?thesis by simp
next
  case False
  then have "\<lceil>x\<rceil> \<le> 0" "\<lfloor>x\<rfloor> \<le> 0" by (simp_all add: ceiling_le_zero)
  with False show ?thesis by simp
qed

lemma fl_run_histories:
  assumes dt: "fl_lt (Finite 0) dt" and q: "fdiv A duration dt = Finite q"
  shows "fl_run A duration dt s =
      (Inr (map (\<lambda>r. map (\<lambda>k. fl_position (fl_heap (((\<lambda>s. snd (fl_step A dt s)) ^^ k) s) r))
                          [0 ..< nat \<lfloor>q\<rfloor>])
                (fl_particles s)),
       ((\<lambda>s. snd (fl_step A dt s)) ^^ nat \<lfloor>q\<rfloor>) s)"
proof -
  define n where "n = nat \<lfloor>q\<rfloor>"
  define g where
    "g = (\<lambda>r. map (\<lambda>k. fl_position (fl_heap (((\<lambda>s. snd (fl_step A dt s)) ^^ k) s) r)) [0 ..< n])"
  have "fl_run A duration dt s = fl_run_loop A n dt s (map (\<lambda>_. []) (fl_particles s))"
    using fl_positive_not_zero [OF dt] by (simp add: fl_run_def q nat_trunc n_def)
  also have "\<dots> = (Inr (map (\<lambda>i. map (\<lambda>_. []) (fl_particles s) ! i @ g (fl_particles s ! i))
                [0 ..< length (fl_particles s)]),
       ((\<lambda>s. snd (fl_step A dt s)) ^^ n) s)"
    unfolding g_def by (rule fl_run_loop_histories [OF dt]) simp
  also have "map (\<lambda>i. map (\<lambda>_. []) (fl_particles s) ! i @ g (fl_particles s ! i))
                [0 ..< length (fl_particles s)] = map g (fl_particles s)"
    by (rule nth_equalityI) simp_all
  finally show ?thesis by (simp only: g_def n_def)
qed

text \<open>
  C7 (as amended). For \<open>dt > 0\<close> with a finite float quotient \<open>q = duration / dt\<close>,
  \<open>run duration dt\<close> returns, and with \<open>n = max 0 (floor q)\<close>: the final state is the
  state after \<open>n\<close> steps \<open>step dt\<close>, each of which succeeds, so the list of particles is
  the one of the call and the clock has been advanced \<open>n\<close> times by \<open>dt\<close>; the result has
  one history for each entry of the list, in order, and the history of an entry is the
  list of its \<open>n\<close> positions in the states reached after \<open>0, 1, ..., n - 1\<close> steps, that
  is, immediately before each step. An infinite quotient raises OverflowError and a NaN
  quotient ValueError. In particular \<open>run 1.0 0.1\<close> on one particle returns one history
  of 10 positions, the float quotient \<open>1.0 / 0.1\<close> being \<open>10.0\<close>.
\<close>

theorem run_histories_positive_dt:
  "(fl_lt (Finite 0) dt \<and> fdiv A duration dt = Finite q \<longrightarrow>
      (let n = nat \<lfloor>q\<rfloor>; F = (\<lambda>s. snd (fl_step A dt s))
       in fl_run A duration dt s =
            (Inr (map (\<lambda>r. map (\<lambda>k. fl_position (fl_heap ((F ^^ k) s) r)) [0 ..< n])
                      (fl_particles s)),
             (F ^^ n) s) \<and>
          (\<forall>k < n. fst (fl_step A dt ((F ^^ k) s)) = Inr ()) \<and>
          fl_particles ((F ^^ n) s) = fl_particles s \<and>
          fl_time ((F ^^ n) s) = ((\<lambda>t. fadd A t dt) ^^ n) (fl_time s))) \<and>
   (fl_lt (Finite 0) dt \<and> (fdiv A duration dt = PInf \<or> fdiv A duration dt = NInf) \<longrightarrow>
      fl_run A duration dt s = (Inl OverflowError, s)) \<and>
   (fl_lt (Finite 0) dt \<and> fdiv A duration dt = NaN \<longrightarrow>
      fl_run A duration dt s = (Inl ValueError, s)) \<and>
   (fl_particles s = [r] \<and> fl_lt (Finite 0) (flit A (1 / 10)) \<and>
    fdiv A (Finite 1) (flit A (1 / 10)) = Finite 10 \<longrightarrow>
      (\<exists>history. fst (fl_run A (Finite 1) (flit A (1 / 10)) s) = Inr [history] \<and>
         length history = 10))"
proof (intro conjI impI)
  assume a: "fl_lt (Finite 0) dt \<and> fdiv A duration dt = Finite q"
  then have dt: "fl_lt (Finite 0) dt" and q: "fdiv A duration dt = Finite q" by simp_all
  show "let n = nat \<lfloor>q\<rfloor>; F = (\<lambda>s. snd (fl_step A dt s))
       in fl_run A duration dt s =
            (Inr (map (\<lambda>r. map (\<lambda>k. fl_position (fl_heap ((F ^^ k) s) r)) [0 ..< n])
                      (fl_particles s)),
             (F ^^ n) s) \<and>
          (\<forall>k < n. fst (fl_step A dt ((F ^^ k) s)) = Inr ()) \<and>
          fl_particles ((F ^^ n) s) = fl_particles s \<and>
          fl_time ((F ^^ n) s) = ((\<lambda>t. fadd A t dt) ^^ n) (fl_time s)"
    unfolding Let_def
    by (simp add: fl_run_histories [OF dt q] fl_step_ok(1) [OF dt] fl_steps_particles [OF dt]
        fl_steps_time [OF dt])
next
  assume "fl_lt (Finite 0) dt \<and> (fdiv A duration dt = PInf \<or> fdiv A duration dt = NInf)"
  then show "fl_run A duration dt s = (Inl OverflowError, s)"
    using fl_positive_not_zero [of dt] by (auto simp add: fl_run_def)
next
  assume "fl_lt (Finite 0) dt \<and> fdiv A duration dt = NaN"
  then show "fl_run A duration dt s = (Inl ValueError, s)"
    using fl_positive_not_zero [of dt] by (auto simp add: fl_run_def)
next
  assume a: "fl_particles s = [r] \<and> fl_lt (Finite 0) (flit A (1 / 10)) \<and>
    fdiv A (Finite 1) (flit A (1 / 10)) = Finite 10"
  then have dt: "fl_lt (Finite 0) (flit A (1 / 10))"
    and q: "fdiv A (Finite 1) (flit A (1 / 10)) = Finite 10" and ps: "fl_particles s = [r]"
    by simp_all
  have n: "nat \<lfloor>10::real\<rfloor> = 10" by simp
  show "\<exists>history. fst (fl_run A (Finite 1) (flit A (1 / 10)) s) = Inr [history] \<and>
      length history = 10"
    by (simp add: fl_run_histories [OF dt q] n ps)
qed

lemma double_tenth: "binary64 (1 / 10) = Finite (3602879701896397 / 2 ^ 55)"
  using binary64_eqI [of "1 / 10" "- 4" "- 4" 7205759403792794] by (simp add: pow2_def)

lemma one_by_tenth: "binary64 (1 / (3602879701896397 / 2 ^ 55)) = Finite 10"
  using binary64_eqI [of "1 / (3602879701896397 / 2 ^ 55)" 3 3 5629499534213120]
  by (simp add: pow2_def)

theorem run_histories_positive_dt_witness:
  "fl_particles fl_falling = [0] \<and>
   flit binary64_arith (1 / 10) = Finite (3602879701896397 / 2 ^ 55) \<and>
   fl_lt (Finite 0) (flit binary64_arith (1 / 10)) \<and>
   fdiv binary64_arith (Finite 1) (flit binary64_arith (1 / 10)) = Finite 10 \<and>
   (\<exists>history. fst (fl_run binary64_arith (Finite 1) (flit binary64_arith (1 / 10)) fl_falling) =
        Inr [history] \<and> length history = 10 \<and> history ! 0 = (Finite 0, Finite 100))"
proof -
  define dt where "dt = flit binary64_arith (1 / 10)"
  define F where "F = (\<lambda>s. snd (fl_step binary64_arith dt s))"
  define hist where "hist = map (\<lambda>k. fl_position (fl_heap ((F ^^ k) fl_falling) 0)) [0 ..< 10]"
  have ps: "fl_particles fl_falling = [0]" by (simp add: fl_falling_def)
  have d: "dt = Finite (3602879701896397 / 2 ^ 55)"
    by (simp add: dt_def double_tenth)
  have pos: "fl_lt (Finite 0) dt" by (simp add: d)
  have q: "fdiv binary64_arith (Finite 1) dt = Finite 10"
    using one_by_tenth by (simp add: d)
  have n: "nat \<lfloor>10::real\<rfloor> = 10" by simp
  have p0: "fl_position (fl_heap fl_falling 0) = (Finite 0, Finite 100)"
    by (simp add: fl_falling_def)
  from run_histories_positive_dt [of dt binary64_arith "Finite 1" 10 fl_falling 0] pos q
  have r: "fl_run binary64_arith (Finite 1) dt fl_falling = (Inr [hist], (F ^^ 10) fl_falling)"
    by (simp only: n ps Let_def list.map hist_def F_def)
  have l: "length hist = 10" by (simp add: hist_def)
  have h0: "hist ! 0 = (Finite 0, Finite 100)" by (simp add: hist_def p0)
  have "\<exists>history. fst (fl_run binary64_arith (Finite 1) dt fl_falling) = Inr [history] \<and>
      length history = 10 \<and> history ! 0 = (Finite 0, Finite 100)"
    using l h0 by (simp add: r)
  then show ?thesis
    using ps d pos q unfolding dt_def by blast
qed

text \<open>
  C7 as stated fails for a time step that is not positive: with \<open>duration = dt = -1\<close>
  the quotient is 1, and \<open>run\<close> does not return a history, since its first \<open>step\<close>
  raises ValueError; with \<open>dt = 0\<close> the division raises.
\<close>

theorem run_negative_dt_counterexample:
  "fdiv binary64_arith (Finite (- 1)) (Finite (- 1)) = Finite 1 \<and>
   fl_run binary64_arith (Finite (- 1)) (Finite (- 1)) fl_falling = (Inl ValueError, fl_falling) \<and>
   fl_run binary64_arith (Finite 1) (Finite 0) fl_falling = (Inl ZeroDivisionError, fl_falling)"
  by (simp add: fl_run_def fl_step_def numeral_eq_Suc)

section \<open>Resolution at zero approach speed\<close>

lemma fl_resolve_collision_impulse:
  assumes "r1 \<noteq> r2" and "\<not> fl_eq (fl_distance_to A (h r1) (h r2)) (Finite 0)"
    and "\<not> fl_gt (fl_vel_along_normal A (h r1) (h r2)) (Finite 0)"
  shows "fl_resolve_collision A r1 r2 h =
    (let p1 = h r1; p2 = h r2; n = fl_collision_normal A p1 p2; j = fl_impulse A p1 p2;
         push = fl_vmul A n (fadd A (fdiv A (fl_overlap A p1 p2) (Finite 2)) (flit A (1 / 100)));
         apart = fl_gt (fl_overlap A p1 p2) (Finite 0)
     in h(r1 := p1\<lparr>fl_velocity := fl_vadd A (fl_velocity p1) (fl_smul A (fdiv A j (fl_mass p1)) n),
                    fl_position := (if apart then fl_vadd A (fl_position p1) push else fl_position p1)\<rparr>,
          r2 := p2\<lparr>fl_velocity := fl_vsub A (fl_velocity p2) (fl_smul A (fdiv A j (fl_mass p2)) n),
                    fl_position := (if apart then fl_vsub A (fl_position p2) push else fl_position p2)\<rparr>))"
  using assms
  by (auto simp add: fl_resolve_collision_def fl_vel_along_normal_def fl_collision_normal_def
      fl_impulse_def fl_inverse_mass_sum_def fl_overlap_def fl_distance_to_def Let_def fun_upd_twist)

lemma fl_resolve_collision_coincident:
  "fl_eq (fl_distance_to A (h r1) (h r2)) (Finite 0) \<Longrightarrow> fl_resolve_collision A r1 r2 h = h"
  by (simp add: fl_resolve_collision_def fl_distance_to_def Let_def)

lemma fl_positive_cases: "fl_lt (Finite 0) m \<Longrightarrow> m \<noteq> Finite 0 \<and> m \<noteq> NaN"
  by (cases m) auto

text \<open>
  C10 (as amended). Take two different particles that collide, with a computed distance
  of the centres that is not zero, a computed normal with finite components, positive
  masses whose computed \<open>1 / m1 + 1 / m2\<close> is neither zero nor NaN, velocities that adding
  or subtracting zero leaves unchanged (as it leaves every double), and a computed
  relative velocity along the normal of exactly zero. Then the impulse is zero and
  \<open>_resolve_collision\<close> leaves both velocities unchanged; and when the computed overlap is
  positive, the first position is rewritten to \<open>position + normal * (overlap / 2 + 0.01)\<close>
  and the second to \<open>position - normal * (overlap / 2 + 0.01)\<close>, computed in floating
  point. Masses, radii and all other objects are untouched.
\<close>

theorem zero_approach_only_separates:
  "r1 \<noteq> r2 \<and> zero_exact A \<and>
   fl_collides_with A (h r1) (h r2) \<and>
   \<not> fl_eq (fl_distance_to A (h r1) (h r2)) (Finite 0) \<and>
   fl_collision_normal A (h r1) (h r2) = (Finite nx, Finite ny) \<and>
   fl_vel_along_normal A (h r1) (h r2) = Finite 0 \<and>
   fl_lt (Finite 0) (fl_mass (h r1)) \<and> fl_lt (Finite 0) (fl_mass (h r2)) \<and>
   fl_inverse_mass_sum A (h r1) (h r2) \<noteq> Finite 0 \<and> fl_inverse_mass_sum A (h r1) (h r2) \<noteq> NaN \<and>
   fl_vadd A (fl_velocity (h r1)) (Finite 0, Finite 0) = fl_velocity (h r1) \<and>
   fl_vsub A (fl_velocity (h r2)) (Finite 0, Finite 0) = fl_velocity (h r2) \<and>
   fl_gt (fl_overlap A (h r1) (h r2)) (Finite 0) \<longrightarrow>
     (let h' = fl_resolve_collision A r1 r2 h;
          n = fl_collision_normal A (h r1) (h r2);
          push = fadd A (fdiv A (fl_overlap A (h r1) (h r2)) (Finite 2)) (flit A (1 / 100))
      in fl_impulse A (h r1) (h r2) = Finite 0 \<and>
         fl_velocity (h' r1) = fl_velocity (h r1) \<and> fl_velocity (h' r2) = fl_velocity (h r2) \<and>
         fl_position (h' r1) = fl_vadd A (fl_position (h r1)) (fl_vmul A n push) \<and>
         fl_position (h' r2) = fl_vsub A (fl_position (h r2)) (fl_vmul A n push) \<and>
         fl_mass (h' r1) = fl_mass (h r1) \<and> fl_mass (h' r2) = fl_mass (h r2) \<and>
         fl_radius (h' r1) = fl_radius (h r1) \<and> fl_radius (h' r2) = fl_radius (h r2) \<and>
         (\<forall>r. r \<noteq> r1 \<and> r \<noteq> r2 \<longrightarrow> h' r = h r))"
proof (intro impI)
  assume a: "r1 \<noteq> r2 \<and> zero_exact A \<and>
   fl_collides_with A (h r1) (h r2) \<and>
   \<not> fl_eq (fl_distance_to A (h r1) (h r2)) (Finite 0) \<and>
   fl_collision_normal A (h r1) (h r2) = (Finite nx, Finite ny) \<and>
   fl_vel_along_normal A (h r1) (h r2) = Finite 0 \<and>
   fl_lt (Finite 0) (fl_mass (h r1)) \<and> fl_lt (Finite 0) (fl_mass (h r2)) \<and>
   fl_inverse_mass_sum A (h r1) (h r2) \<noteq> Finite 0 \<and> fl_inverse_mass_sum A (h r1) (h r2) \<noteq> NaN \<and>
   fl_vadd A (fl_velocity (h r1)) (Finite 0, Finite 0) = fl_velocity (h r1) \<and>
   fl_vsub A (fl_velocity (h r2)) (Finite 0, Finite 0) = fl_velocity (h r2) \<and>
   fl_gt (fl_overlap A (h r1) (h r2)) (Finite 0)"
  then have r: "r1 \<noteq> r2" and z: "zero_exact A"
    and nz: "\<not> fl_eq (fl_distance_to A (h r1) (h r2)) (Finite 0)"
    and n: "fl_collision_normal A (h r1) (h r2) = (Finite nx, Finite ny)"
    and vn: "fl_vel_along_normal A (h r1) (h r2) = Finite 0"
    and m1: "fl_lt (Finite 0) (fl_mass (h r1))" and m2: "fl_lt (Finite 0) (fl_mass (h r2))"
    and d: "fl_inverse_mass_sum A (h r1) (h r2) \<noteq> Finite 0"
      "fl_inverse_mass_sum A (h r1) (h r2) \<noteq> NaN"
    and v1: "fl_vadd A (fl_velocity (h r1)) (Finite 0, Finite 0) = fl_velocity (h r1)"
    and v2: "fl_vsub A (fl_velocity (h r2)) (Finite 0, Finite 0) = fl_velocity (h r2)"
    and ov: "fl_gt (fl_overlap A (h r1) (h r2)) (Finite 0)"
    by simp_all
  from z have zm: "fmul A (Finite 0) (Finite a) = Finite 0" "fmul A (Finite a) (Finite 0) = Finite 0"
    for a by (simp_all add: zero_exact_def)
  from z have zd: "fdiv A (Finite 0) y = Finite 0" if "y \<noteq> Finite 0" "y \<noteq> NaN" for y
    using that by (simp add: zero_exact_def)
  have j: "fl_impulse A (h r1) (h r2) = Finite 0"
    by (simp add: fl_impulse_def vn zm zd [OF d])
  have j1: "fdiv A (Finite 0) (fl_mass (h r1)) = Finite 0"
    using fl_positive_cases [OF m1] by (simp add: zd)
  have j2: "fdiv A (Finite 0) (fl_mass (h r2)) = Finite 0"
    using fl_positive_cases [OF m2] by (simp add: zd)
  have s: "fl_smul A (Finite 0) (Finite nx, Finite ny) = (Finite 0, Finite 0)"
    by (simp add: fl_smul_def zm)
  have g: "\<not> fl_gt (fl_vel_along_normal A (h r1) (h r2)) (Finite 0)"
    by (simp add: vn fl_gt_def)
  show "let h' = fl_resolve_collision A r1 r2 h;
          n = fl_collision_normal A (h r1) (h r2);
          push = fadd A (fdiv A (fl_overlap A (h r1) (h r2)) (Finite 2)) (flit A (1 / 100))
      in fl_impulse A (h r1) (h r2) = Finite 0 \<and>
         fl_velocity (h' r1) = fl_velocity (h r1) \<and> fl_velocity (h' r2) = fl_velocity (h r2) \<and>
         fl_position (h' r1) = fl_vadd A (fl_position (h r1)) (fl_vmul A n push) \<and>
         fl_position (h' r2) = fl_vsub A (fl_position (h r2)) (fl_vmul A n push) \<and>
         fl_mass (h' r1) = fl_mass (h r1) \<and> fl_mass (h' r2) = fl_mass (h r2) \<and>
         fl_radius (h' r1) = fl_radius (h r1) \<and> fl_radius (h' r2) = fl_radius (h r2) \<and>
         (\<forall>r. r \<noteq> r1 \<and> r \<noteq> r2 \<longrightarrow> h' r = h r)"
    using r ov
    by (simp add: fl_resolve_collision_impulse [OF r nz g] Let_def j j1 j2 n s v1 v2)
qed

lemma zero_exact_binary64: "zero_exact binary64_arith"
proof -
  have "ieee_div binary64 (Finite 0) y = Finite 0" if "y \<noteq> Finite 0" "y \<noteq> NaN" for y
    using that by (cases y) simp_all
  then show ?thesis by (simp add: zero_exact_def)
qed

lemma double_half: "binary64 (1 / 2) = Finite (1 / 2)"
  using binary64_dyadic [of 1 1] by simp

lemma double_hundredth: "binary64 (1 / 100) = Finite (5764607523034235 / 2 ^ 59)"
  using binary64_eqI [of "1 / 100" "- 7" "- 7" 5764607523034235] by (simp add: pow2_def)

lemma s_push: "binary64 (1 / 2 + 5764607523034235 / 2 ^ 59) = Finite (2296835809958953 / 2 ^ 52)"
  using binary64_eqI [of "1 / 2 + 5764607523034235 / 2 ^ 59" "- 1" "- 1" 4593671619917906]
  by (simp add: pow2_def)

lemma s_push_neg:
  "binary64 (- (2296835809958953 / 2 ^ 52)) = Finite (- (2296835809958953 / 2 ^ 52))"
  using binary64_dyadic [of "- 2296835809958953" 52] by simp

lemma s_far: "binary64 (1 + 2296835809958953 / 2 ^ 52) = Finite (6800435437329449 / 2 ^ 52)"
  using binary64_eqI [of "1 + 2296835809958953 / 2 ^ 52" 0 0 6800435437329449]
  by (simp add: pow2_def)

lemma sliding_facts:
  "fl_collides_with binary64_arith (fl_sliding 0) (fl_sliding 1)"
  "fl_distance_to binary64_arith (fl_sliding 0) (fl_sliding 1) = Finite 1"
  "fl_collision_normal binary64_arith (fl_sliding 0) (fl_sliding 1) = (Finite (- 1), Finite 0)"
  "fl_vel_along_normal binary64_arith (fl_sliding 0) (fl_sliding 1) = Finite 0"
  "fl_inverse_mass_sum binary64_arith (fl_sliding 0) (fl_sliding 1) = Finite 2"
  "fl_overlap binary64_arith (fl_sliding 0) (fl_sliding 1) = Finite 1"
  "fl_vadd binary64_arith (fl_velocity (fl_sliding 0)) (Finite 0, Finite 0) = fl_velocity (fl_sliding 0)"
  "fl_vsub binary64_arith (fl_velocity (fl_sliding 1)) (Finite 0, Finite 0) = fl_velocity (fl_sliding 1)"
  "fl_lt (Finite 0) (fl_mass (fl_sliding 0))" "fl_lt (Finite 0) (fl_mass (fl_sliding 1))"
  by (simp_all add: fl_sliding_def fl_collides_with_def fl_distance_to_def fl_collision_normal_def
      fl_vel_along_normal_def fl_inverse_mass_sum_def fl_overlap_def
      fl_vsub_def fl_vadd_def fl_vdiv_def)

theorem zero_approach_only_separates_witness:
  "zero_exact binary64_arith \<and>
   fl_collides_with binary64_arith (fl_sliding 0) (fl_sliding 1) \<and>
   fl_distance_to binary64_arith (fl_sliding 0) (fl_sliding 1) = Finite 1 \<and>
   fl_vel_along_normal binary64_arith (fl_sliding 0) (fl_sliding 1) = Finite 0 \<and>
   fl_overlap binary64_arith (fl_sliding 0) (fl_sliding 1) = Finite 1 \<and>
   fl_velocity (fl_resolve_collision binary64_arith 0 1 fl_sliding 0) = (Finite 0, Finite 1) \<and>
   fl_velocity (fl_resolve_collision binary64_arith 0 1 fl_sliding 1) = (Finite 0, Finite (- 1)) \<and>
   fl_position (fl_resolve_collision binary64_arith 0 1 fl_sliding 0) =
     (Finite (- (2296835809958953 / 2 ^ 52)), Finite 0) \<and>
   fl_position (fl_resolve_collision binary64_arith 0 1 fl_sliding 1) =
     (Finite (6800435437329449 / 2 ^ 52), Finite 0)"
proof -
  have v: "fl_velocity (fl_sliding 0) = (Finite 0, Finite 1)"
    "fl_velocity (fl_sliding 1) = (Finite 0, Finite (- 1))"
    "fl_position (fl_sliding 0) = (Finite 0, Finite 0)"
    "fl_position (fl_sliding 1) = (Finite 1, Finite 0)"
    by (simp_all add: fl_sliding_def)
  have push: "fadd binary64_arith (fdiv binary64_arith (Finite 1) (Finite 2))
      (flit binary64_arith (1 / 100)) = Finite (2296835809958953 / 2 ^ 52)"
    using s_push by (simp add: double_half double_hundredth)
  have m: "fl_vmul binary64_arith (Finite (- 1), Finite 0) (Finite (2296835809958953 / 2 ^ 52)) =
      (Finite (- (2296835809958953 / 2 ^ 52)), Finite 0)"
    using s_push_neg by (simp add: fl_vmul_def)
  have a1: "fl_vadd binary64_arith (Finite 0, Finite 0)
      (Finite (- (2296835809958953 / 2 ^ 52)), Finite 0) =
      (Finite (- (2296835809958953 / 2 ^ 52)), Finite 0)"
    using s_push_neg by (simp add: fl_vadd_def)
  have a2: "fl_vsub binary64_arith (Finite 1, Finite 0)
      (Finite (- (2296835809958953 / 2 ^ 52)), Finite 0) =
      (Finite (6800435437329449 / 2 ^ 52), Finite 0)"
    using s_far by (simp add: fl_vsub_def)
  have g: "fl_gt (Finite 1) (Finite 0)" by (simp add: fl_gt_def)
  from zero_approach_only_separates [of 0 1 binary64_arith fl_sliding "- 1" 0]
  have "fl_velocity (fl_resolve_collision binary64_arith 0 1 fl_sliding 0) = fl_velocity (fl_sliding 0) \<and>
     fl_velocity (fl_resolve_collision binary64_arith 0 1 fl_sliding 1) = fl_velocity (fl_sliding 1) \<and>
     fl_position (fl_resolve_collision binary64_arith 0 1 fl_sliding 0) =
       fl_vadd binary64_arith (fl_position (fl_sliding 0))
         (fl_vmul binary64_arith (Finite (- 1), Finite 0) (Finite (2296835809958953 / 2 ^ 52))) \<and>
     fl_position (fl_resolve_collision binary64_arith 0 1 fl_sliding 1) =
       fl_vsub binary64_arith (fl_position (fl_sliding 1))
         (fl_vmul binary64_arith (Finite (- 1), Finite 0) (Finite (2296835809958953 / 2 ^ 52)))"
    using zero_exact_binary64 sliding_facts g
    by (simp only: Let_def sliding_facts push) simp
  then show ?thesis
    using zero_exact_binary64 sliding_facts(1,2,4,6) by (simp only: v m a1 a2)
qed

lemma u_diff: "binary64 (- (1 / 2 ^ 600)) = Finite (- (1 / 2 ^ 600))"
  using binary64_dyadic [of "- 1" 600] by simp

lemma u_square: "binary64 (1 / 2 ^ 600 * (1 / 2 ^ 600)) = Finite 0"
  using binary64_small [of "1 / 2 ^ 600 * (1 / 2 ^ 600)" 0] by (simp add: pow2_def)

text \<open>
  C10 as stated fails in binary64: the two particles have distinct centres, collide and
  have no relative velocity, yet the square of their distance underflows, the computed
  distance is zero and \<open>_resolve_collision\<close> returns without moving them.
\<close>

theorem zero_approach_only_separates_counterexample:
  "fl_position (fl_underflow 0) \<noteq> fl_position (fl_underflow 1) \<and>
   fl_velocity (fl_underflow 0) = fl_velocity (fl_underflow 1) \<and>
   fl_collides_with binary64_arith (fl_underflow 0) (fl_underflow 1) \<and>
   fl_distance_to binary64_arith (fl_underflow 0) (fl_underflow 1) = Finite 0 \<and>
   fl_resolve_collision binary64_arith 0 1 fl_underflow = fl_underflow"
proof -
  have d: "fl_distance_to binary64_arith (fl_underflow 0) (fl_underflow 1) = Finite 0"
    using u_diff u_square by (simp add: fl_distance_to_def fl_vsub_def fl_underflow_def)
  have s: "fadd binary64_arith (fl_radius (fl_underflow 0)) (fl_radius (fl_underflow 1)) = Finite 2"
    by (simp add: fl_underflow_def)
  have c: "fl_collides_with binary64_arith (fl_underflow 0) (fl_underflow 1)"
    unfolding fl_collides_with_def Let_def d s by simp
  have r: "fl_resolve_collision binary64_arith 0 1 fl_underflow = fl_underflow"
    by (rule fl_resolve_collision_coincident) (simp only: d fl_eq.simps)
  show ?thesis
    using d c r by (simp add: fl_underflow_def)
qed

end
